theory Spec2Isabelle
  imports Complex_Main "HOL-Library.Multiset"
begin

section \<open>JavaScript strings\<close>

text \<open>
  A JavaScript string is modelled as a \<open>string\<close>, one \<open>char\<close> per code unit, for the code
  units below 256. The white space of \<open>trim\<close> and of the regular expression class \<open>\s\<close> is tab, line feed,
  vertical tab, form feed, carriage return, space and the no-break space.
\<close>

definition isSpace :: "char \<Rightarrow> bool" where
  "isSpace c = (c \<in> set [CHR 0x09, CHR 0x0A, CHR 0x0B, CHR 0x0C, CHR 0x0D, CHR 0x20, CHR 0xA0])"

definition isDigit :: "char \<Rightarrow> bool" where
  "isDigit c = (c \<in> set ''0123456789'')"

text \<open>
  The letters of the ASCII alphabet in the other case. A regular expression with the flag
  \<open>i\<close> and no flag \<open>u\<close> compares a letter of the pattern with a code unit of the input
  after this conversion: a code unit outside ASCII is never taken for an ASCII letter.
  \<open>String.prototype.toLowerCase\<close> and \<open>toUpperCase\<close> are another matter: they follow the
  Unicode case mappings, which may change the length of a string, and belong to the engine.
\<close>

definition asciiLowerChar :: "char \<Rightarrow> char" where
  "asciiLowerChar c =
     (case map_of (zip ''ABCDEFGHIJKLMNOPQRSTUVWXYZ'' ''abcdefghijklmnopqrstuvwxyz'') c of
        None \<Rightarrow> c
      | Some l \<Rightarrow> l)"

definition asciiUpperChar :: "char \<Rightarrow> char" where
  "asciiUpperChar c =
     (case map_of (zip ''abcdefghijklmnopqrstuvwxyz'' ''ABCDEFGHIJKLMNOPQRSTUVWXYZ'') c of
        None \<Rightarrow> c
      | Some u \<Rightarrow> u)"

definition asciiLowerCase :: "string \<Rightarrow> string" where
  "asciiLowerCase s = map asciiLowerChar s"

definition asciiUpperCase :: "string \<Rightarrow> string" where
  "asciiUpperCase s = map asciiUpperChar s"

definition trim :: "string \<Rightarrow> string" where
  "trim s = rev (dropWhile isSpace (rev (dropWhile isSpace s)))"

definition startsWith :: "string \<Rightarrow> string \<Rightarrow> bool" where
  "startsWith s k = (take (length k) s = k)"

definition endsWith :: "string \<Rightarrow> string \<Rightarrow> bool" where
  "endsWith s k = (length k \<le> length s \<and> drop (length s - length k) s = k)"

fun str_includes :: "string \<Rightarrow> string \<Rightarrow> bool" where
  "str_includes [] k = (k = [])"
| "str_includes (c # cs) k = (startsWith (c # cs) k \<or> str_includes cs k)"

text \<open>\<open>s.charAt(0)\<close> is the empty string when \<open>s\<close> is empty; \<open>s.slice(1)\<close> drops one unit.\<close>

definition charAt0 :: "string \<Rightarrow> string" where
  "charAt0 s = take 1 s"

definition slice1 :: "string \<Rightarrow> string" where
  "slice1 s = drop 1 s"

text \<open>
  \<open>s.replace(/^(w1|...|wn):\s*/i, "")\<close>: the alternatives are tried in order at the start of
  the string, in either case of their letters, each must be followed by a colon, and the
  white space after the colon goes with the match. A string that does not match is returned
  as it is.
\<close>

definition stripPrefixCI :: "string list \<Rightarrow> string \<Rightarrow> string" where
  "stripPrefixCI ws s =
     (case find (\<lambda>w. startsWith (asciiLowerCase s) (w @ '':'')) ws of
        None \<Rightarrow> s
      | Some w \<Rightarrow> dropWhile isSpace (drop (length w + 1) s))"

text \<open>\<open>s.replace(/^PR #\d+:\s*/, "")\<close>.\<close>

definition stripPRPrefix :: "string \<Rightarrow> string" where
  "stripPRPrefix s =
     (if startsWith s ''PR #'' then
        (let r = drop 4 s; ds = takeWhile isDigit r; r' = dropWhile isDigit r
         in if ds \<noteq> [] \<and> startsWith r' '':'' then dropWhile isSpace (drop 1 r') else s)
      else s)"

text \<open>\<open>s.split(/[...]+/)\<close> for a class of characters: the pieces between the maximal runs of
  separators. The empty string gives one empty piece.\<close>

fun splitRuns :: "(char \<Rightarrow> bool) \<Rightarrow> string \<Rightarrow> string list" where
  "splitRuns P [] = [[]]"
| "splitRuns P (c # cs) =
     (if P c then (if cs \<noteq> [] \<and> P (hd cs) then splitRuns P cs else [] # splitRuns P cs)
      else (case splitRuns P cs of [] \<Rightarrow> [[c]] | piece # pieces \<Rightarrow> (c # piece) # pieces))"

text \<open>\<open>s.replace(/\s+/g, " ")\<close>: every maximal run of white space becomes one space.\<close>

fun collapseSpaces :: "string \<Rightarrow> string" where
  "collapseSpaces [] = []"
| "collapseSpaces (c # cs) =
     (if isSpace c then (if cs \<noteq> [] \<and> isSpace (hd cs) then collapseSpaces cs
                         else CHR '' '' # collapseSpaces cs)
      else c # collapseSpaces cs)"

text \<open>\<open>s.replace(/\n{3,}/g, "\n\n")\<close>: a run of three or more line feeds becomes two; \<open>n\<close>
  counts the line feeds of the run being read.\<close>

fun normalizeBreaks_from :: "nat \<Rightarrow> string \<Rightarrow> string" where
  "normalizeBreaks_from n [] = replicate (min n 2) (CHR 0x0A)"
| "normalizeBreaks_from n (c # cs) =
     (if c = CHR 0x0A then normalizeBreaks_from (Suc n) cs
      else replicate (min n 2) (CHR 0x0A) @ c # normalizeBreaks_from 0 cs)"

definition normalizeBreaks :: "string \<Rightarrow> string" where
  "normalizeBreaks s = normalizeBreaks_from 0 s"

text \<open>\<open>s.split(/\n+|\. |\! |\? |;/)\<close>: a separator is a run of line feeds, a full stop,
  exclamation mark or question mark followed by a space, or a semicolon.\<close>

fun splitChunks :: "string \<Rightarrow> string list" where
  "splitChunks [] = [[]]"
| "splitChunks [c] = (if c = CHR 0x0A \<or> c = CHR '';'' then [[], []] else [[c]])"
| "splitChunks (c # d # cs) =
     (if c = CHR 0x0A then (if d = CHR 0x0A then splitChunks (d # cs) else [] # splitChunks (d # cs))
      else if (c = CHR ''.'' \<or> c = CHR ''!'' \<or> c = CHR ''?'') \<and> d = CHR '' '' then [] # splitChunks cs
      else if c = CHR '';'' then [] # splitChunks (d # cs)
      else (case splitChunks (d # cs) of [] \<Rightarrow> [[c]] | piece # pieces \<Rightarrow> (c # piece) # pieces))"

text \<open>A number as a template literal prints it: its decimal digits, most significant first,
  after a minus sign when it is negative. The digits are collected from the least
  significant one.\<close>

definition digitChar :: "nat \<Rightarrow> char" where
  "digitChar d = ''0123456789'' ! (d mod 10)"

function decimal_from :: "nat \<Rightarrow> string \<Rightarrow> string" where
  "decimal_from n digits =
     (if n div 10 = 0 then digitChar n # digits
      else decimal_from (n div 10) (digitChar n # digits))"
  by pat_completeness auto
termination
  by (relation "measure (\<lambda>(n, digits). n)") auto

definition natToString :: "nat \<Rightarrow> string" where
  "natToString n = decimal_from n []"

definition intToString :: "int \<Rightarrow> string" where
  "intToString i = (if i < 0 then CHR ''-'' # natToString (nat (- i)) else natToString (nat i))"

text \<open>\<open>arr.indexOf(item)\<close>, \<open>-1\<close> when the item does not occur, and
  \<open>arr.filter((item, index, arr) => arr.indexOf(item) === index)\<close>, which keeps the first
  occurrence of every item.\<close>

fun indexOf_from :: "'a list \<Rightarrow> 'a \<Rightarrow> int \<Rightarrow> int" where
  "indexOf_from [] item i = - 1"
| "indexOf_from (x # xs) item i = (if x = item then i else indexOf_from xs item (i + 1))"

definition indexOf :: "'a list \<Rightarrow> 'a \<Rightarrow> int" where
  "indexOf arr item = indexOf_from arr item 0"

definition firstOccurrences :: "'a list \<Rightarrow> 'a list" where
  "firstOccurrences arr =
     map snd (filter (\<lambda>(index, item). indexOf arr item = int index) (enumerate 0 arr))"

section \<open>JavaScript numbers\<close>

text \<open>
  A value of type \<open>number\<close>: a finite number, one of the two infinities, or \<open>NaN\<close>. Finite
  numbers are reals and their arithmetic is exact here; on whole numbers below \<open>2^53\<close>, which
  is where clock readings and counts are, the arithmetic of the engine is exact too. The two
  zeros are not told apart: no comparison does.
\<close>

datatype number = Num real | Infinity | MinusInfinity | NaN

definition num_of_int :: "int \<Rightarrow> number" where
  "num_of_int i = Num (of_int i)"

fun num_neg :: "number \<Rightarrow> number" where
  "num_neg (Num x) = Num (- x)"
| "num_neg Infinity = MinusInfinity"
| "num_neg MinusInfinity = Infinity"
| "num_neg NaN = NaN"

text \<open>\<open>a + b\<close>: \<open>NaN\<close> when an operand is, or when the operands are the two infinities.\<close>

fun num_add :: "number \<Rightarrow> number \<Rightarrow> number" where
  "num_add (Num x) (Num y) = Num (x + y)"
| "num_add NaN b = NaN"
| "num_add a NaN = NaN"
| "num_add Infinity MinusInfinity = NaN"
| "num_add MinusInfinity Infinity = NaN"
| "num_add Infinity b = Infinity"
| "num_add MinusInfinity b = MinusInfinity"
| "num_add (Num x) b = b"

definition num_sub :: "number \<Rightarrow> number \<Rightarrow> number" where
  "num_sub a b = num_add a (num_neg b)"

text \<open>\<open>a * b\<close>: an infinity times zero is \<open>NaN\<close>, otherwise the signs decide.\<close>

definition num_sign :: "number \<Rightarrow> int" where
  "num_sign a =
     (case a of Num x \<Rightarrow> (if x < 0 then - 1 else if x = 0 then 0 else 1)
      | Infinity \<Rightarrow> 1 | MinusInfinity \<Rightarrow> - 1 | NaN \<Rightarrow> 0)"

definition num_mul :: "number \<Rightarrow> number \<Rightarrow> number" where
  "num_mul a b =
     (case (a, b) of
        (Num x, Num y) \<Rightarrow> Num (x * y)
      | (NaN, _) \<Rightarrow> NaN
      | (_, NaN) \<Rightarrow> NaN
      | _ \<Rightarrow>
          (if num_sign a * num_sign b = 0 then NaN
           else if num_sign a * num_sign b < 0 then MinusInfinity
           else Infinity))"

text \<open>\<open>a < b\<close> and \<open>a >= b\<close>: both are false when an operand is \<open>NaN\<close>.\<close>

fun num_less :: "number \<Rightarrow> number \<Rightarrow> bool" where
  "num_less (Num x) (Num y) = (x < y)"
| "num_less NaN b = False"
| "num_less a NaN = False"
| "num_less a MinusInfinity = False"
| "num_less Infinity b = False"
| "num_less MinusInfinity b = True"
| "num_less (Num x) Infinity = True"

definition num_ge :: "number \<Rightarrow> number \<Rightarrow> bool" where
  "num_ge a b = (a \<noteq> NaN \<and> b \<noteq> NaN \<and> \<not> num_less a b)"

text \<open>\<open>Math.min(...xs)\<close> for an array of whole numbers: \<open>Infinity\<close> when it is empty.\<close>

definition Math_min :: "int list \<Rightarrow> number" where
  "Math_min xs = (if xs = [] then Infinity else num_of_int (Min (set xs)))"
section \<open>Errors, the environment and the world\<close>

datatype error = Error string | TypeError | SyntaxError

text \<open>The values \<open>JSON.parse\<close> can return.\<close>

datatype json = JNull | JBool bool | JNum real | JStr string | JArr "json list"
  | JObj "(string \<times> json) list"

text \<open>
  \<open>value.filter((a) => a && a.trim().length > 0)\<close> on a parsed value. Only an array has a
  \<open>filter\<close> method. The callback drops the falsy elements (\<open>null\<close>, \<open>false\<close>, \<open>0\<close>, the empty
  string) and the strings that are blank, keeps the other strings, and raises a TypeError
  on any other element, which has no \<open>trim\<close> method. The callback
  \<open>(f) => f && f.trim()\<close> of \<open>validateAndCleanSummary\<close> decides the same way.
\<close>

fun filter_nonblank_loop :: "json list \<Rightarrow> error + string list" where
  "filter_nonblank_loop [] = Inr []"
| "filter_nonblank_loop (a # rest) =
     (case a of
        JNull \<Rightarrow> filter_nonblank_loop rest
      | JBool b \<Rightarrow> (if b then Inl TypeError else filter_nonblank_loop rest)
      | JNum n \<Rightarrow> (if n = 0 then filter_nonblank_loop rest else Inl TypeError)
      | JStr s \<Rightarrow>
          (case filter_nonblank_loop rest of
             Inl e \<Rightarrow> Inl e
           | Inr kept \<Rightarrow> Inr (if length (trim s) > 0 then s # kept else kept))
      | JArr xs \<Rightarrow> Inl TypeError
      | JObj kvs \<Rightarrow> Inl TypeError)"

definition filter_nonblank :: "json \<Rightarrow> error + string list" where
  "filter_nonblank v = (case v of JArr xs \<Rightarrow> filter_nonblank_loop xs | _ \<Rightarrow> Inl TypeError)"

section \<open>RateLimiter\<close>

text \<open>
  Timestamps are milliseconds, as \<open>Date.now()\<close> gives them: whole numbers. The limit and the
  window are whatever numbers the constructor was given; the one limiter of the program,
  \<open>geminiRateLimiter\<close>, is created with 10 and 1, and the defaults of the constructor, which
  are the same, are never used. Every method takes the clock readings it makes as
  arguments.
\<close>

record RateLimiter =
  requests :: "int list"
  maxRequests :: number
  timeWindow :: number

definition new_RateLimiter :: "number \<Rightarrow> number \<Rightarrow> RateLimiter" where
  "new_RateLimiter maxRequests' timeWindowMinutes =
     \<lparr>requests = [], maxRequests = maxRequests',
      timeWindow = num_mul (num_mul timeWindowMinutes (Num 60)) (Num 1000)\<rparr>"

text \<open>\<open>this.requests = this.requests.filter((timestamp) => now - timestamp < this.timeWindow)\<close>\<close>

definition prune :: "int \<Rightarrow> RateLimiter \<Rightarrow> RateLimiter" where
  "prune now' rl =
     rl\<lparr>requests :=
          filter (\<lambda>timestamp. num_less (num_of_int (now' - timestamp)) (timeWindow rl))
            (requests rl)\<rparr>"

definition canMakeRequest :: "int \<Rightarrow> RateLimiter \<Rightarrow> bool \<times> RateLimiter" where
  "canMakeRequest now' rl =
     (let rl' = prune now' rl
      in (num_less (num_of_int (int (length (requests rl')))) (maxRequests rl'), rl'))"

text \<open>
  \<open>waitForAvailability\<close> has two parts, with the \<open>await\<close> of the timer between them when
  the window is full. The first part prunes and computes the time to wait:
  \<open>Math.min(...this.requests)\<close> is \<open>Infinity\<close> for an empty array, and so is the wait then.
  The second part, run when the timer has fired, records the call with a fresh clock reading.
\<close>

definition waitForAvailability_check :: "int \<Rightarrow> RateLimiter \<Rightarrow> number option \<times> RateLimiter" where
  "waitForAvailability_check now' rl =
     (let rl' = prune now' rl in
      if num_ge (num_of_int (int (length (requests rl')))) (maxRequests rl') then
        (let oldestRequest = Math_min (requests rl');
             waitTime =
               num_add (num_sub (timeWindow rl') (num_sub (num_of_int now') oldestRequest))
                 (Num 1000)
         in (Some waitTime, rl'))
      else (None, rl'))"

definition waitForAvailability_record :: "int \<Rightarrow> RateLimiter \<Rightarrow> RateLimiter" where
  "waitForAvailability_record now2 rl = rl\<lparr>requests := requests rl @ [now2]\<rparr>"

definition waitForAvailability :: "int \<Rightarrow> int \<Rightarrow> RateLimiter \<Rightarrow> RateLimiter" where
  "waitForAvailability now' now2 rl =
     waitForAvailability_record now2 (snd (waitForAvailability_check now' rl))"

record UsageStats =
  st_current :: int
  st_max :: number
  st_remaining :: number

definition getUsageStats :: "int \<Rightarrow> RateLimiter \<Rightarrow> UsageStats \<times> RateLimiter" where
  "getUsageStats now' rl =
     (let rl' = prune now' rl in
      (\<lparr>st_current = int (length (requests rl')),
        st_max = maxRequests rl',
        st_remaining = num_sub (maxRequests rl') (num_of_int (int (length (requests rl'))))\<rparr>,
       rl'))"

definition reset :: "RateLimiter \<Rightarrow> RateLimiter" where
  "reset rl = rl\<lparr>requests := []\<rparr>"

text \<open>
  A run of the limiter by one caller at a time: each operation is finished before the next
  one starts. \<open>Execute\<close> is \<open>waitForAvailability\<close> followed by the wrapped function, which
  does not touch the limiter.
\<close>

datatype operation =
    CanMakeRequest int
  | WaitForAvailability int int
  | Execute int int
  | GetUsageStats int

fun step :: "operation \<Rightarrow> RateLimiter \<Rightarrow> RateLimiter" where
  "step (CanMakeRequest t) rl = snd (canMakeRequest t rl)"
| "step (WaitForAvailability t t2) rl = waitForAvailability t t2 rl"
| "step (Execute t t2) rl = waitForAvailability t t2 rl"
| "step (GetUsageStats t) rl = snd (getUsageStats t rl)"

fun run :: "operation list \<Rightarrow> RateLimiter \<Rightarrow> RateLimiter" where
  "run [] rl = rl"
| "run (operation # rest) rl = run rest (step operation rl)"

text \<open>
  What a run takes from its surroundings: the clock never goes back (\<open>T\<close> is the last
  reading made so far), and a timer set for a finite time does not fire early, so the
  reading after a wait is at least that much later. A timer set for a time that is not
  finite fires at once. (The timers of Node fire at once also for a time above \<open>2^31 - 1\<close>
  milliseconds: with a window that long, the surroundings do not meet this condition.)
\<close>

definition timer_honoured :: "int \<Rightarrow> int \<Rightarrow> RateLimiter \<Rightarrow> bool" where
  "timer_honoured t t2 rl =
     (case fst (waitForAvailability_check t rl) of
        Some (Num waitTime) \<Rightarrow> of_int t + waitTime \<le> of_int t2
      | _ \<Rightarrow> True)"

fun well_timed :: "int \<Rightarrow> operation list \<Rightarrow> RateLimiter \<Rightarrow> bool" where
  "well_timed T [] rl = True"
| "well_timed T (CanMakeRequest t # rest) rl =
     (T \<le> t \<and> well_timed t rest (step (CanMakeRequest t) rl))"
| "well_timed T (GetUsageStats t # rest) rl =
     (T \<le> t \<and> well_timed t rest (step (GetUsageStats t) rl))"
| "well_timed T (WaitForAvailability t t2 # rest) rl =
     (T \<le> t \<and> t \<le> t2 \<and> timer_honoured t t2 rl \<and>
      well_timed t2 rest (step (WaitForAvailability t t2) rl))"
| "well_timed T (Execute t t2 # rest) rl =
     (T \<le> t \<and> t \<le> t2 \<and> timer_honoured t t2 rl \<and>
      well_timed t2 rest (step (Execute t t2) rl))"

text \<open>The condition that gates new calls, at clock reading \<open>T\<close>: the number of recorded
  timestamps inside the window is within the limit.\<close>

definition inWindow :: "RateLimiter \<Rightarrow> int \<Rightarrow> int \<Rightarrow> bool" where
  "inWindow rl T timestamp = num_less (num_of_int (T - timestamp)) (timeWindow rl)"

definition window_ok :: "int \<Rightarrow> int \<Rightarrow> RateLimiter \<Rightarrow> bool" where
  "window_ok m T rl = (int (length (filter (inWindow rl T) (requests rl))) \<le> m)"

text \<open>
  What the program cannot control: the outcome of the k-th call of the language model
  (\<open>generateContent\<close>, its \<open>response\<close> and \<open>text()\<close>: an error or the returned text, whatever
  the prompt was), \<open>JSON.parse\<close>, and the successive readings of \<open>Date.now()\<close>; and what
  the engine defines: \<open>String.prototype.toLowerCase\<close> and \<open>toUpperCase\<close>, which follow the
  Unicode case mappings, and the addition of two finite numbers, which rounds its result to
  the nearest number the engine can represent.
\<close>

record env =
  generateContent :: "nat \<Rightarrow> error + string"
  JSON_parse :: "string \<Rightarrow> error + json"
  Date_now :: "nat \<Rightarrow> int"
  toLowerCase :: "string \<Rightarrow> string"
  toUpperCase :: "string \<Rightarrow> string"
  Number_add :: "real \<Rightarrow> real \<Rightarrow> real"

text \<open>
  An engine for the examples. Its case conversions are those of the ASCII letters, which is
  what the conversions of an engine do to a string of ASCII characters. Its addition is
  exact, where an engine rounds the sum to the nearest number it can represent: for the
  scores of the examples that makes no difference once \<open>Math.round\<close> has been applied.
\<close>

definition sampleEngine ::
  "(nat \<Rightarrow> error + string) \<Rightarrow> (string \<Rightarrow> error + json) \<Rightarrow> (nat \<Rightarrow> int) \<Rightarrow> env"
where
  "sampleEngine answers parse clock =
     \<lparr>generateContent = answers, JSON_parse = parse, Date_now = clock,
      toLowerCase = asciiLowerCase, toUpperCase = asciiUpperCase, Number_add = (+)\<rparr>"

text \<open>The mutable state: how many model calls and clock readings were made, and the
  process-wide rate limiter \<open>geminiRateLimiter\<close>.\<close>

record world =
  calls :: nat
  ticks :: nat
  geminiRateLimiter :: RateLimiter

type_synonym 'a io = "world \<Rightarrow> (error + 'a) \<times> world"

definition ret :: "'a \<Rightarrow> 'a io" where
  "ret x w = (Inr x, w)"

definition throw :: "error \<Rightarrow> 'a io" where
  "throw e w = (Inl e, w)"

definition bind :: "'a io \<Rightarrow> ('a \<Rightarrow> 'b io) \<Rightarrow> 'b io" where
  "bind m f w = (case m w of (Inl e, w') \<Rightarrow> (Inl e, w') | (Inr x, w') \<Rightarrow> f x w')"

definition try_catch :: "'a io \<Rightarrow> (error \<Rightarrow> 'a io) \<Rightarrow> 'a io" where
  "try_catch m h w = (case m w of (Inl e, w') \<Rightarrow> h e w' | (Inr x, w') \<Rightarrow> (Inr x, w'))"

definition lift :: "error + 'a \<Rightarrow> 'a io" where
  "lift r w = (r, w)"

text \<open>One model call: \<open>(await (await model.generateContent(prompt)).response).text()\<close>.\<close>

definition model_text :: "env \<Rightarrow> string io" where
  "model_text E w = (generateContent E (calls w), w\<lparr>calls := calls w + 1\<rparr>)"

definition now :: "env \<Rightarrow> int io" where
  "now E w = (Inr (Date_now E (ticks w)), w\<lparr>ticks := ticks w + 1\<rparr>)"

text \<open>A computation returns: it ends with a value, never with a raised error.\<close>

definition returns :: "'a io \<Rightarrow> bool" where
  "returns m = (\<forall>w. \<exists>x w'. m w = (Inr x, w'))"

text \<open>A computation yields \<open>P\<close>: it returns, and its value satisfies \<open>P\<close>.\<close>

definition yields :: "'a io \<Rightarrow> ('a \<Rightarrow> bool) \<Rightarrow> bool" where
  "yields m P = (\<forall>w. \<exists>x w'. m w = (Inr x, w') \<and> P x)"

section \<open>Categorizer\<close>

record CategorizedActivity =
  category :: string
  description :: string
  impact :: string
  source :: string
  originalText :: string

definition validCategories :: "string list" where
  "validCategories =
     [''feature'', ''fix'', ''refactor'', ''docs'', ''test'', ''chore'', ''performance'',
      ''security'']"

definition fallbackClassification :: "env \<Rightarrow> string \<Rightarrow> string" where
  "fallbackClassification E activity =
     (let text = toLowerCase E activity in
      if str_includes text ''add'' \<or> str_includes text ''implement'' \<or> str_includes text ''create'' \<or>
         str_includes text ''new'' \<or> str_includes text ''feature'' \<or> str_includes text ''enhance''
      then ''feature''
      else if str_includes text ''fix'' \<or> str_includes text ''bug'' \<or> str_includes text ''error'' \<or>
         str_includes text ''issue'' \<or> str_includes text ''resolve'' \<or> str_includes text ''correct''
      then ''fix''
      else if str_includes text ''refactor'' \<or> str_includes text ''clean'' \<or>
         str_includes text ''improve'' \<or> str_includes text ''optimize'' \<or>
         str_includes text ''restructure'' \<or> str_includes text ''update''
      then ''refactor''
      else if str_includes text ''doc'' \<or> str_includes text ''readme'' \<or> str_includes text ''comment'' \<or>
         str_includes text ''documentation''
      then ''docs''
      else if str_includes text ''test'' \<or> str_includes text ''spec'' \<or> str_includes text ''unit'' \<or>
         str_includes text ''integration''
      then ''test''
      else if str_includes text ''performance'' \<or> str_includes text ''speed'' \<or>
         str_includes text ''cache'' \<or> str_includes text ''memory''
      then ''performance''
      else if str_includes text ''security'' \<or> str_includes text ''auth'' \<or>
         str_includes text ''permission'' \<or> str_includes text ''vulnerability''
      then ''security''
      else ''chore'')"

text \<open>
  \<open>classifyActivity\<close>: the body of the \<open>try\<close> asks the model, normalises the answer and
  accepts it when it is one of the valid categories; the \<open>catch\<close> answers with the keyword
  classification.
\<close>

definition classifyActivity :: "env \<Rightarrow> string \<Rightarrow> string io" where
  "classifyActivity E activity =
     try_catch
       (bind (model_text E) (\<lambda>text.
          (let classification = toLowerCase E (trim text) in
           if classification \<in> set validCategories then ret classification
           else ret (fallbackClassification E activity))))
       (\<lambda>error. ret (fallbackClassification E activity))"

definition assessImpact :: "env \<Rightarrow> string \<Rightarrow> string \<Rightarrow> string" where
  "assessImpact E activity cat =
     (let text = toLowerCase E activity in
      if str_includes text ''major'' \<or> str_includes text ''significant'' \<or>
         str_includes text ''breaking'' \<or> str_includes text ''critical'' \<or>
         str_includes text ''important'' \<or> str_includes text ''milestone'' \<or>
         cat = ''security'' \<or> cat = ''performance''
      then ''high''
      else if str_includes text ''improve'' \<or> str_includes text ''enhance'' \<or>
         str_includes text ''optimize'' \<or> str_includes text ''feature'' \<or>
         cat = ''feature'' \<or> cat = ''fix''
      then ''medium''
      else ''low'')"

definition ensurePunctuation :: "string \<Rightarrow> string" where
  "ensurePunctuation s =
     (if \<not> endsWith s ''.'' \<and> \<not> endsWith s ''!'' \<and> \<not> endsWith s ''?'' then s @ ''.'' else s)"

text \<open>\<open>s.charAt(0).toUpperCase() + s.slice(1)\<close>: the first code unit alone goes through the
  conversion of the engine, which may answer with more than one unit. For the empty string
  \<open>charAt(0)\<close> is the empty string, and so is its conversion.\<close>

definition capitalize :: "env \<Rightarrow> string \<Rightarrow> string" where
  "capitalize E s = (if charAt0 s = [] then [] else toUpperCase E (charAt0 s)) @ slice1 s"

text \<open>The alternatives of \<open>/^(feat|fix|refactor|docs|test|chore|style|perf|security):\s*/i\<close>,
  the expression that both cleaning functions start with.\<close>

definition technicalPrefixes :: "string list" where
  "technicalPrefixes =
     [''feat'', ''fix'', ''refactor'', ''docs'', ''test'', ''chore'', ''style'', ''perf'',
      ''security'']"

definition createBusinessDescription :: "env \<Rightarrow> string \<Rightarrow> string \<Rightarrow> string" where
  "createBusinessDescription E activity cat =
     ensurePunctuation (capitalize E (trim
       (stripPrefixCI [''add'', ''implement'', ''create'', ''update'', ''fix'', ''remove'', ''delete'']
         (stripPrefixCI technicalPrefixes activity))))"

text \<open>
  \<open>classifyActivities\<close>: one item per activity, in order. The \<open>try\<close> of each turn
  classifies, assesses and describes the activity; its \<open>catch\<close> records the activity with
  the keyword classification.
\<close>

fun classifyActivities_loop ::
  "env \<Rightarrow> string \<Rightarrow> string list \<Rightarrow> CategorizedActivity list \<Rightarrow> CategorizedActivity list io"
where
  "classifyActivities_loop E src [] categorizedActivities = ret categorizedActivities"
| "classifyActivities_loop E src (activity # rest) categorizedActivities =
     bind
       (try_catch
          (bind (classifyActivity E activity) (\<lambda>cat.
             ret \<lparr>category = cat,
                  description = createBusinessDescription E activity cat,
                  impact = assessImpact E activity cat,
                  source = src,
                  originalText = activity\<rparr>))
          (\<lambda>error.
             ret \<lparr>category = fallbackClassification E activity,
                  description = createBusinessDescription E activity ''chore'',
                  impact = ''low'',
                  source = src,
                  originalText = activity\<rparr>))
       (\<lambda>item. classifyActivities_loop E src rest (categorizedActivities @ [item]))"

definition classifyActivities :: "env \<Rightarrow> string list \<Rightarrow> string \<Rightarrow> CategorizedActivity list io" where
  "classifyActivities E activities src = classifyActivities_loop E src activities []"

text \<open>The object \<open>Record<ActivityCategory, CategorizedActivity[]>\<close>, its keys in the order
  in which \<open>groupByCategory\<close> creates them.\<close>

record Grouped =
  grp_feature :: "CategorizedActivity list"
  grp_fix :: "CategorizedActivity list"
  grp_refactor :: "CategorizedActivity list"
  grp_docs :: "CategorizedActivity list"
  grp_test :: "CategorizedActivity list"
  grp_chore :: "CategorizedActivity list"
  grp_performance :: "CategorizedActivity list"
  grp_security :: "CategorizedActivity list"

definition emptyGrouped :: Grouped where
  "emptyGrouped =
     \<lparr>grp_feature = [], grp_fix = [], grp_refactor = [], grp_docs = [], grp_test = [],
      grp_chore = [], grp_performance = [], grp_security = []\<rparr>"

text \<open>\<open>grouped[activity.category].push(activity)\<close>: a category that is not a key of the
  object has no array to push to, and the call raises a TypeError.\<close>

definition grouped_push :: "Grouped \<Rightarrow> CategorizedActivity \<Rightarrow> error + Grouped" where
  "grouped_push g a =
     (let c = category a in
      if c = ''feature'' then Inr (g\<lparr>grp_feature := grp_feature g @ [a]\<rparr>)
      else if c = ''fix'' then Inr (g\<lparr>grp_fix := grp_fix g @ [a]\<rparr>)
      else if c = ''refactor'' then Inr (g\<lparr>grp_refactor := grp_refactor g @ [a]\<rparr>)
      else if c = ''docs'' then Inr (g\<lparr>grp_docs := grp_docs g @ [a]\<rparr>)
      else if c = ''test'' then Inr (g\<lparr>grp_test := grp_test g @ [a]\<rparr>)
      else if c = ''chore'' then Inr (g\<lparr>grp_chore := grp_chore g @ [a]\<rparr>)
      else if c = ''performance'' then Inr (g\<lparr>grp_performance := grp_performance g @ [a]\<rparr>)
      else if c = ''security'' then Inr (g\<lparr>grp_security := grp_security g @ [a]\<rparr>)
      else Inl TypeError)"

fun groupByCategory_loop :: "CategorizedActivity list \<Rightarrow> Grouped \<Rightarrow> error + Grouped" where
  "groupByCategory_loop [] grouped = Inr grouped"
| "groupByCategory_loop (activity # rest) grouped =
     (case grouped_push grouped activity of
        Inl e \<Rightarrow> Inl e
      | Inr grouped' \<Rightarrow> groupByCategory_loop rest grouped')"

definition groupByCategory :: "CategorizedActivity list \<Rightarrow> error + Grouped" where
  "groupByCategory activities = groupByCategory_loop activities emptyGrouped"

text \<open>\<open>Object.values(grouped).flat()\<close>: the arrays of the object, one after the other.\<close>

definition flattenGrouped :: "Grouped \<Rightarrow> CategorizedActivity list" where
  "flattenGrouped g =
     grp_feature g @ grp_fix g @ grp_refactor g @ grp_docs g @ grp_test g @ grp_chore g @
     grp_performance g @ grp_security g"

record Buckets =
  Features :: "string list"
  Fixes :: "string list"
  Refactors :: "string list"

definition mapToWeeklySummaryCategories :: "Grouped \<Rightarrow> Buckets" where
  "mapToWeeklySummaryCategories grouped =
     \<lparr>Features =
        map description (grp_feature grouped) @ map description (grp_performance grouped) @
        map description (grp_security grouped),
      Fixes = map description (grp_fix grouped),
      Refactors =
        map description (grp_refactor grouped) @ map description (grp_docs grouped) @
        map description (grp_test grouped) @ map description (grp_chore grouped)\<rparr>"

text \<open>The grouped object \<open>g\<close> with every activity of \<open>xs\<close> appended, in order, to the array of
  its category.\<close>

definition appendByCategory :: "CategorizedActivity list \<Rightarrow> Grouped \<Rightarrow> Grouped" where
  "appendByCategory xs g =
     \<lparr>grp_feature = grp_feature g @ filter (\<lambda>a. category a = ''feature'') xs,
      grp_fix = grp_fix g @ filter (\<lambda>a. category a = ''fix'') xs,
      grp_refactor = grp_refactor g @ filter (\<lambda>a. category a = ''refactor'') xs,
      grp_docs = grp_docs g @ filter (\<lambda>a. category a = ''docs'') xs,
      grp_test = grp_test g @ filter (\<lambda>a. category a = ''test'') xs,
      grp_chore = grp_chore g @ filter (\<lambda>a. category a = ''chore'') xs,
      grp_performance = grp_performance g @ filter (\<lambda>a. category a = ''performance'') xs,
      grp_security = grp_security g @ filter (\<lambda>a. category a = ''security'') xs\<rparr>"

section \<open>NotionProcessor\<close>

text \<open>The \<open>processingTimestamp\<close> is kept as the clock reading it is made from.\<close>

record ProcessedContent =
  achievements :: "string list"
  insights :: "string list"
  learnings :: "string list"
  wordCount :: nat
  processingTimestamp :: int
  contentType :: string

definition createEmptyResult :: "env \<Rightarrow> string \<Rightarrow> ProcessedContent io" where
  "createEmptyResult E contentType' =
     bind (now E) (\<lambda>timestamp.
       ret \<lparr>achievements = [], insights = [], learnings = [], wordCount = 0,
            processingTimestamp = timestamp, contentType = contentType'\<rparr>)"

definition cleanTextContent :: "string \<Rightarrow> string" where
  "cleanTextContent content = trim (normalizeBreaks (collapseSpaces content))"

text \<open>
  The loop of the three keyword extractions: a sentence with one of the keywords is kept,
  trimmed, and the loop stops when \<open>limit\<close> sentences are kept.
\<close>

fun keywordExtraction_loop :: "env \<Rightarrow> string list \<Rightarrow> nat \<Rightarrow> string list \<Rightarrow> string list \<Rightarrow> string list" where
  "keywordExtraction_loop E keywords limit [] kept = kept"
| "keywordExtraction_loop E keywords limit (sentence # rest) kept =
     (let lowerSentence = toLowerCase E sentence in
      if list_ex (\<lambda>keyword. str_includes lowerSentence keyword) keywords then
        (let kept' = kept @ [trim sentence] in
         if length kept' \<ge> limit then kept' else keywordExtraction_loop E keywords limit rest kept')
      else keywordExtraction_loop E keywords limit rest kept)"

definition sentences :: "string \<Rightarrow> string list" where
  "sentences content =
     filter (\<lambda>s. length (trim s) > 10) (splitRuns (\<lambda>c. c \<in> set ''.!?'') content)"

definition fallbackAchievementExtraction :: "env \<Rightarrow> string \<Rightarrow> string list" where
  "fallbackAchievementExtraction E content =
     keywordExtraction_loop E
       [''completed'', ''finished'', ''implemented'', ''created'', ''developed'', ''built'',
        ''delivered'', ''achieved'', ''accomplished'', ''solved'']
       5 (sentences content) []"

definition fallbackInsightExtraction :: "env \<Rightarrow> string \<Rightarrow> string list" where
  "fallbackInsightExtraction E content =
     keywordExtraction_loop E
       [''discovered'', ''found'', ''realized'', ''learned'', ''understood'', ''insight'',
        ''finding'', ''conclusion'', ''observation'']
       3 (sentences content) []"

definition fallbackLearningExtraction :: "env \<Rightarrow> string \<Rightarrow> string list" where
  "fallbackLearningExtraction E content =
     keywordExtraction_loop E
       [''learned'', ''studied'', ''mastered'', ''acquired'', ''gained'', ''skill'',
        ''knowledge'', ''concept'', ''technique'', ''methodology'']
       3 (sentences content) []"

text \<open>
  \<open>extractAchievements\<close>, \<open>extractInsights\<close> and \<open>extractLearnings\<close> have one shape: nothing
  for blank content; else, in the \<open>try\<close>, a model call, \<open>JSON.parse\<close> of the trimmed answer and
  the filter of its non-blank strings; in the \<open>catch\<close>, the keyword extraction.
\<close>

definition extractWith :: "env \<Rightarrow> (string \<Rightarrow> string list) \<Rightarrow> string \<Rightarrow> string list io" where
  "extractWith E fallback content =
     (if content = [] \<or> length (trim content) = 0 then ret []
      else
        try_catch
          (bind (model_text E) (\<lambda>text.
           bind (lift (JSON_parse E (trim text))) (\<lambda>parsed.
           lift (filter_nonblank parsed))))
          (\<lambda>error. ret (fallback content)))"

definition extractAchievements :: "env \<Rightarrow> string \<Rightarrow> string list io" where
  "extractAchievements E content = extractWith E (fallbackAchievementExtraction E) content"

definition extractInsights :: "env \<Rightarrow> string \<Rightarrow> string list io" where
  "extractInsights E content = extractWith E (fallbackInsightExtraction E) content"

definition extractLearnings :: "env \<Rightarrow> string \<Rightarrow> string list io" where
  "extractLearnings E content = extractWith E (fallbackLearningExtraction E) content"

definition countWords :: "string \<Rightarrow> nat" where
  "countWords content = length (splitRuns isSpace content)"

definition fallbackProcessing :: "env \<Rightarrow> string \<Rightarrow> string \<Rightarrow> ProcessedContent io" where
  "fallbackProcessing E content contentType' =
     bind (now E) (\<lambda>timestamp.
       ret \<lparr>achievements = fallbackAchievementExtraction E content,
            insights = fallbackInsightExtraction E content,
            learnings = fallbackLearningExtraction E content,
            wordCount = countWords content,
            processingTimestamp = timestamp,
            contentType = contentType'\<rparr>)"

definition processTextContent :: "env \<Rightarrow> string \<Rightarrow> ProcessedContent io" where
  "processTextContent E content =
     (if content = [] \<or> length (trim content) = 0 then createEmptyResult E ''text''
      else
        (let cleanedContent = cleanTextContent content in
         try_catch
           (bind (extractAchievements E cleanedContent) (\<lambda>achievements'.
            bind (extractInsights E cleanedContent) (\<lambda>insights'.
            bind (extractLearnings E cleanedContent) (\<lambda>learnings'.
            bind (now E) (\<lambda>timestamp.
              ret \<lparr>achievements = achievements', insights = insights', learnings = learnings',
                   wordCount = countWords cleanedContent,
                   processingTimestamp = timestamp,
                   contentType = ''text''\<rparr>)))))
           (\<lambda>error. fallbackProcessing E cleanedContent ''text'')))"

definition convertToAchievements :: "env \<Rightarrow> ProcessedContent \<Rightarrow> string list" where
  "convertToAchievements E processed =
     firstOccurrences
       (achievements processed @
        map (\<lambda>insight. ''Researched and documented '' @ toLowerCase E insight) (insights processed) @
        map (\<lambda>learning. ''Learned and applied '' @ toLowerCase E learning) (learnings processed))"

text \<open>
  \<open>deduplicateAndPrioritize\<close>: first occurrences only, then the items whose trimmed length
  is greater than 10, sorted by decreasing length (the sort is stable), and the first ten.
\<close>

definition deduplicateAndPrioritize :: "string list \<Rightarrow> string list" where
  "deduplicateAndPrioritize items =
     (let unique = filter (\<lambda>item. length (trim item) > 10) (firstOccurrences items)
      in take 10 (sort_key (\<lambda>a. - int (length a)) unique))"

section \<open>Summarizer\<close>

text \<open>What the pipeline reads of the GitHub data: the message of a commit
  (\<open>commit.commit.message\<close>), and the number, title and body of a pull request.\<close>

record GitHubCommit =
  commit_message :: string

record GitHubPR =
  pr_number :: nat
  pr_title :: string
  pr_body :: "string option"

record GitHubData =
  commits :: "GitHubCommit list"
  pullRequests :: "GitHubPR list"

text \<open>An optional string is truthy when it is present and not empty.\<close>

definition truthy :: "string option \<Rightarrow> bool" where
  "truthy s = (case s of None \<Rightarrow> False | Some v \<Rightarrow> v \<noteq> [])"

definition orEmpty :: "string option \<Rightarrow> string" where
  "orEmpty s = (case s of None \<Rightarrow> [] | Some v \<Rightarrow> v)"

definition prDescription :: "GitHubPR \<Rightarrow> string" where
  "prDescription pr =
     (let title = pr_title pr; body = orEmpty (pr_body pr) in
      ''PR #'' @ natToString (pr_number pr) @ '': '' @ title @
      (if body \<noteq> [] then '' - '' @ body else []))"

definition cleanActivityDescription :: "env \<Rightarrow> string \<Rightarrow> string" where
  "cleanActivityDescription E activity =
     ensurePunctuation (capitalize E (trim
       (stripPRPrefix (stripPrefixCI technicalPrefixes activity))))"

definition summarizeActivityGroup :: "env \<Rightarrow> string list \<Rightarrow> string \<Rightarrow> string option io" where
  "summarizeActivityGroup E activities cat =
     (if length activities = 0 then ret None
      else if length activities = 1 then ret (Some (cleanActivityDescription E (hd activities)))
      else
        try_catch
          (bind (model_text E) (\<lambda>text. ret (Some (trim text))))
          (\<lambda>error. ret (Some (cleanActivityDescription E (hd activities)))))"

fun fallbackHighlight_loop :: "env \<Rightarrow> string list \<Rightarrow> string list \<Rightarrow> string list" where
  "fallbackHighlight_loop E [] highlights = highlights"
| "fallbackHighlight_loop E (activity # rest) highlights =
     (let text = toLowerCase E activity in
      if list_ex (\<lambda>keyword. str_includes text keyword)
           [''major'', ''significant'', ''critical'', ''important'', ''milestone'', ''launch'',
            ''release'', ''performance'', ''security'', ''breaking'']
      then
        (let highlights' = highlights @ [cleanActivityDescription E activity] in
         if length highlights' \<ge> 3 then highlights' else fallbackHighlight_loop E rest highlights')
      else fallbackHighlight_loop E rest highlights)"

definition fallbackHighlightExtraction :: "env \<Rightarrow> string list \<Rightarrow> string list" where
  "fallbackHighlightExtraction E activities = fallbackHighlight_loop E activities []"

definition extractHighlights :: "env \<Rightarrow> string list \<Rightarrow> string list io" where
  "extractHighlights E allActivities =
     (if length allActivities = 0 then ret []
      else
        try_catch
          (bind (model_text E) (\<lambda>text.
           bind (lift (JSON_parse E (trim text))) (\<lambda>highlights.
           lift (filter_nonblank highlights))))
          (\<lambda>error. ret (fallbackHighlightExtraction E allActivities)))"

definition fallbackContentExtraction :: "env \<Rightarrow> string \<Rightarrow> string list" where
  "fallbackContentExtraction E content =
     map (cleanActivityDescription E)
       (take 5 (filter (\<lambda>chunk. length chunk > 20) (map trim (splitChunks content))))"

definition extractActivitiesFromContent :: "env \<Rightarrow> string \<Rightarrow> string list io" where
  "extractActivitiesFromContent E content =
     (if content = [] \<or> length (trim content) = 0 then ret []
      else
        try_catch
          (bind (model_text E) (\<lambda>text.
           bind (lift (JSON_parse E (trim text))) (\<lambda>activities.
           lift (filter_nonblank activities))))
          (\<lambda>error. ret (fallbackContentExtraction E content)))"

text \<open>The answer of the model without its Markdown code fence: \<open>replace(/^```json\s*/, "")\<close>
  or \<open>replace(/^```\s*/, "")\<close>, then \<open>replace(/\s*```$/, "")\<close>.\<close>

definition fence :: string where
  "fence = [CHR 0x60, CHR 0x60, CHR 0x60]"

definition stripFenceEnd :: "string \<Rightarrow> string" where
  "stripFenceEnd s = (if endsWith s fence then rev (dropWhile isSpace (drop 3 (rev s))) else s)"

definition stripCodeFence :: "string \<Rightarrow> string" where
  "stripCodeFence cleanedText =
     (if startsWith cleanedText (fence @ ''json'') then
        stripFenceEnd (dropWhile isSpace (drop 7 cleanedText))
      else if startsWith cleanedText fence then
        stripFenceEnd (dropWhile isSpace (drop 3 cleanedText))
      else cleanedText)"

record WeeklySummary = Buckets +
  Highlights :: "string list option"
  Notes :: "string list option"

text \<open>
  \<open>validateAndCleanSummary\<close> reads five properties of the parsed value. Reading a property
  of \<open>null\<close> raises a TypeError; a value that is not an object has none of the properties. A
  property that is an array is filtered to its non-blank strings, any other gives the
  empty list.
\<close>

definition property :: "json \<Rightarrow> string \<Rightarrow> error + json option" where
  "property v k =
     (case v of JNull \<Rightarrow> Inl TypeError | JObj kvs \<Rightarrow> Inr (map_of kvs k) | _ \<Rightarrow> Inr None)"

definition cleanField :: "json \<Rightarrow> string \<Rightarrow> error + string list" where
  "cleanField summary k =
     (case property summary k of
        Inl e \<Rightarrow> Inl e
      | Inr (Some (JArr xs)) \<Rightarrow> filter_nonblank_loop xs
      | Inr _ \<Rightarrow> Inr [])"

definition validateAndCleanSummary :: "json \<Rightarrow> error + WeeklySummary" where
  "validateAndCleanSummary summary =
     (case cleanField summary ''Features'' of Inl e \<Rightarrow> Inl e | Inr features \<Rightarrow>
      case cleanField summary ''Fixes'' of Inl e \<Rightarrow> Inl e | Inr fixes \<Rightarrow>
      case cleanField summary ''Refactors'' of Inl e \<Rightarrow> Inl e | Inr refactors \<Rightarrow>
      case cleanField summary ''Highlights'' of Inl e \<Rightarrow> Inl e | Inr highlights \<Rightarrow>
      case cleanField summary ''Notes'' of Inl e \<Rightarrow> Inl e | Inr notes \<Rightarrow>
        Inr \<lparr>Features = features, Fixes = fixes, Refactors = refactors,
             Highlights = Some highlights, Notes = Some notes\<rparr>)"

definition fallbackStructuredSummary :: "env \<Rightarrow> string list \<Rightarrow> WeeklySummary io" where
  "fallbackStructuredSummary E activities =
     bind (classifyActivities E activities ''commit'') (\<lambda>categorizedActivities.
     bind (lift (groupByCategory categorizedActivities)) (\<lambda>grouped.
       (let mapped = mapToWeeklySummaryCategories grouped in
        bind (extractHighlights E activities) (\<lambda>highlights.
          ret \<lparr>Features = Features mapped, Fixes = Fixes mapped, Refactors = Refactors mapped,
               Highlights = Some highlights, Notes = Some []\<rparr>))))"

definition generateStructuredSummary :: "env \<Rightarrow> string list \<Rightarrow> WeeklySummary io" where
  "generateStructuredSummary E activities =
     (if length activities = 0 then
        ret \<lparr>Features = [], Fixes = [], Refactors = [], Highlights = Some [], Notes = Some []\<rparr>
      else
        try_catch
          (bind (model_text E) (\<lambda>text.
           bind (lift (JSON_parse E (stripCodeFence (trim text)))) (\<lambda>summary.
           lift (validateAndCleanSummary summary))))
          (\<lambda>error. fallbackStructuredSummary E activities))"

definition createWeeklySummary ::
  "env \<Rightarrow> GitHubData \<Rightarrow> string option \<Rightarrow> string option \<Rightarrow> WeeklySummary io" where
  "createWeeklySummary E githubData' notionContent' additionalContext' =
     (let commitMessages = map commit_message (commits githubData');
          prDescriptions = map prDescription (pullRequests githubData');
          allActivities = commitMessages @ prDescriptions
      in
        bind
          (if truthy notionContent' \<or> truthy additionalContext' then
             extractActivitiesFromContent E
               (if truthy notionContent' then orEmpty notionContent'
                else if truthy additionalContext' then orEmpty additionalContext' else [])
           else ret [])
          (\<lambda>additionalActivities.
             generateStructuredSummary E (allActivities @ additionalActivities)))"

section \<open>WeeklyUpdateAIAgent\<close>

text \<open>
  The constructors of the agent and of its three components read the API key of the
  environment and raise when it is missing or empty.
\<close>

definition new_WeeklyUpdateAIAgent :: "string option \<Rightarrow> error + unit" where
  "new_WeeklyUpdateAIAgent apiKey =
     (if \<not> truthy apiKey then Inl (Error ''Google AI API key is not configured'') else Inr ())"

record AIAgentInput =
  githubData :: GitHubData
  notionContent :: "string option"
  additionalContext :: "string option"
  startDate :: string
  endDate :: string

record AIAgentOutput =
  weeklySummary :: WeeklySummary
  categorizedActivities :: "CategorizedActivity list"
  totalActivities :: nat
  analysisTimestamp :: int
  confidenceScore :: int

record Achievement =
  ach_id :: string
  ach_text :: json
  ach_selected :: bool
  ach_source :: string

text \<open>The limiter's methods on the process-wide instance, reading the clock as they go.\<close>

definition getUsageStats_io :: "env \<Rightarrow> UsageStats io" where
  "getUsageStats_io E =
     bind (now E) (\<lambda>t w.
       (Inr (fst (getUsageStats t (geminiRateLimiter w))),
        w\<lparr>geminiRateLimiter := snd (getUsageStats t (geminiRateLimiter w))\<rparr>))"

definition waitForAvailability_io :: "env \<Rightarrow> unit io" where
  "waitForAvailability_io E =
     bind (now E) (\<lambda>t.
     bind (now E) (\<lambda>t2 w.
       (Inr (), w\<lparr>geminiRateLimiter := waitForAvailability t t2 (geminiRateLimiter w)\<rparr>)))"

definition execute :: "env \<Rightarrow> 'a io \<Rightarrow> 'a io" where
  "execute E fn = bind (waitForAvailability_io E) (\<lambda>u. fn)"

text \<open>The message of a raised error: the one it was created with; an error of the engine
  itself is represented by its name.\<close>

definition message :: "error \<Rightarrow> string" where
  "message e =
     (case e of Error m \<Rightarrow> m | TypeError \<Rightarrow> ''TypeError'' | SyntaxError \<Rightarrow> ''SyntaxError'')"

definition processOptionalContent :: "env \<Rightarrow> string option \<Rightarrow> string \<Rightarrow> CategorizedActivity list io" where
  "processOptionalContent E content src =
     (case content of
        None \<Rightarrow> ret []
      | Some c \<Rightarrow>
          if c = [] then ret []
          else
            bind (processTextContent E c) (\<lambda>processed.
              classifyActivities E (convertToAchievements E processed) src))"

definition processAllSources :: "env \<Rightarrow> AIAgentInput \<Rightarrow> CategorizedActivity list io" where
  "processAllSources E input =
     bind
       (if length (commits (githubData input)) > 0 then
          classifyActivities E (map commit_message (commits (githubData input))) ''commit''
        else ret [])
       (\<lambda>commitActivities.
     bind
       (if length (pullRequests (githubData input)) > 0 then
          classifyActivities E (map prDescription (pullRequests (githubData input))) ''pr''
        else ret [])
       (\<lambda>prActivities.
     bind (processOptionalContent E (notionContent input) ''notion'') (\<lambda>notionActivities.
     bind (processOptionalContent E (additionalContext input) ''manual'') (\<lambda>contextActivities.
       ret (commitActivities @ prActivities @ notionActivities @ contextActivities)))))"

definition activitiesNote :: "nat \<Rightarrow> string" where
  "activitiesNote n =
     ''Analyzed '' @ natToString n @
     '' activities across multiple sources including GitHub commits, pull requests, and documentation.''"

definition createComprehensiveSummary ::
  "env \<Rightarrow> AIAgentInput \<Rightarrow> CategorizedActivity list \<Rightarrow> WeeklySummary io" where
  "createComprehensiveSummary E input activities =
     bind (createWeeklySummary E (githubData input) (notionContent input) (additionalContext input))
       (\<lambda>summary.
     bind (extractHighlights E (map originalText activities)) (\<lambda>highlights.
       (let summary1 =
              (if length highlights > 0 \<and>
                  (case Highlights summary of None \<Rightarrow> True | Some hs \<Rightarrow> length hs = 0)
               then summary\<lparr>Highlights := Some highlights\<rparr> else summary);
            summary2 =
              (if length activities > 10 then
                 summary1\<lparr>Notes :=
                   Some ((case Notes summary1 of None \<Rightarrow> [] | Some notes \<Rightarrow> notes) @
                         [activitiesNote (length activities)])\<rparr>
               else summary1)
        in ret summary2)))"

text \<open>
  \<open>calculateConfidenceScore\<close>. The weights are the numbers that the literals \<open>0.6\<close>, \<open>0.8\<close>,
  \<open>0.7\<close> and \<open>0.5\<close> denote in the engine (the nearest multiples of \<open>2^-53\<close>); the sources are
  the four that the agent assigns, any other one weighing \<open>0.5\<close>. Every \<open>score += x\<close> is an
  addition of the engine, and \<open>Math.round\<close> rounds a half upwards.
\<close>

definition sourceWeight :: "string \<Rightarrow> real" where
  "sourceWeight src =
     (if src = ''commit'' then 5404319552844595 / 9007199254740992
      else if src = ''pr'' then 7205759403792794 / 9007199254740992
      else if src = ''notion'' then 6305039478318694 / 9007199254740992
      else 1 / 2)"

definition Math_round :: "real \<Rightarrow> int" where
  "Math_round x = \<lfloor>x + 1 / 2\<rfloor>"

definition calculateConfidenceScore :: "env \<Rightarrow> CategorizedActivity list \<Rightarrow> int" where
  "calculateConfidenceScore E activities =
     (if length activities = 0 then 0
      else
        (let score1 = Number_add E 0 (of_int (min (int (length activities) * 10) 60));
             sources = remdups (map source activities);
             score2 = Number_add E score1 (of_int (int (length sources) * 10));
             highImpactCount = length (filter (\<lambda>a. impact a = ''high'') activities);
             score3 = Number_add E score2 (of_int (int highImpactCount * 5));
             score4 =
               fold (\<lambda>activity score. Number_add E score (sourceWeight (source activity)))
                 activities score3
         in min (Math_round score4) 100))"

definition analyzeActivity :: "env \<Rightarrow> AIAgentInput \<Rightarrow> AIAgentOutput io" where
  "analyzeActivity E input =
     try_catch
       (bind (processAllSources E input) (\<lambda>processedActivities.
        bind (createComprehensiveSummary E input processedActivities) (\<lambda>weeklySummary'.
        bind (now E) (\<lambda>timestamp.
          ret \<lparr>weeklySummary = weeklySummary',
               categorizedActivities = processedActivities,
               totalActivities = length processedActivities,
               analysisTimestamp = timestamp,
               confidenceScore = calculateConfidenceScore E processedActivities\<rparr>))))
       (\<lambda>error. throw (Error (''AI Agent analysis failed: '' @ message error)))"

text \<open>The achievements made from the elements of a parsed array, each with an identifier
  built from a clock reading and its index.\<close>

fun toAchievements :: "env \<Rightarrow> string \<Rightarrow> json list \<Rightarrow> nat \<Rightarrow> Achievement list io" where
  "toAchievements E prefix [] index = ret []"
| "toAchievements E prefix (achievement # rest) index =
     bind (now E) (\<lambda>t.
     bind (toAchievements E prefix rest (Suc index)) (\<lambda>others.
       ret (\<lparr>ach_id = prefix @ intToString t @ ''-'' @ natToString index,
             ach_text = achievement, ach_selected = True, ach_source = ''github''\<rparr> # others)))"

definition parsedAchievements :: "env \<Rightarrow> string \<Rightarrow> json \<Rightarrow> Achievement list io" where
  "parsedAchievements E prefix parsed =
     (case parsed of JArr xs \<Rightarrow> toAchievements E prefix xs 0 | _ \<Rightarrow> throw TypeError)"

definition basicAchievement :: "int \<Rightarrow> nat \<Rightarrow> string \<Rightarrow> Achievement" where
  "basicAchievement t index text =
     \<lparr>ach_id = ''basic-'' @ intToString t @ ''-'' @ natToString index,
      ach_text = JStr text, ach_selected = True, ach_source = ''github''\<rparr>"

definition pushBasic :: "env \<Rightarrow> bool \<Rightarrow> string \<Rightarrow> Achievement list \<Rightarrow> Achievement list io" where
  "pushBasic E condition text achievements' =
     (if condition then
        bind (now E) (\<lambda>t.
          ret (achievements' @ [basicAchievement t (length achievements') text]))
      else ret achievements')"

definition createBasicFallbackAchievements ::
  "env \<Rightarrow> GitHubData \<Rightarrow> string option \<Rightarrow> Achievement list io" where
  "createBasicFallbackAchievements E githubData' additionalContext' =
     bind (pushBasic E (length (commits githubData') > 0)
             (''Completed '' @ natToString (length (commits githubData')) @
              '' code commits with various improvements and updates.'') [])
       (\<lambda>a1.
     bind (pushBasic E (length (pullRequests githubData') > 0)
             (''Submitted '' @ natToString (length (pullRequests githubData')) @
              '' pull request(s) for code review and integration.'') a1)
       (\<lambda>a2.
     bind (pushBasic E (truthy additionalContext')
             ''Documented research findings and additional project context for team reference.''
             a2)
       (\<lambda>a3.
     pushBasic E (length a3 = 0)
       ''Maintained ongoing development work and project documentation.'' a3)))"

definition optimizedSingleCallAnalysis ::
  "env \<Rightarrow> GitHubData \<Rightarrow> string option \<Rightarrow> string list \<Rightarrow> Achievement list io" where
  "optimizedSingleCallAnalysis E githubData' additionalContext' pdfFiles =
     try_catch
       (bind (execute E (model_text E)) (\<lambda>result.
        bind (lift (JSON_parse E (stripCodeFence (trim result)))) (\<lambda>achievements'.
          parsedAchievements E ''ai-optimized-'' achievements')))
       (\<lambda>error. createBasicFallbackAchievements E githubData' additionalContext')"

definition quickAnalyze ::
  "env \<Rightarrow> GitHubData \<Rightarrow> string option \<Rightarrow> string list \<Rightarrow> Achievement list io" where
  "quickAnalyze E githubData' additionalContext' pdfFiles =
     try_catch
       (bind (getUsageStats_io E) (\<lambda>stats.
          optimizedSingleCallAnalysis E githubData' additionalContext' pdfFiles))
       (\<lambda>error. throw error)"

section \<open>lib/ai and the analyze route\<close>

definition fallbackAnalysis :: "env \<Rightarrow> GitHubData \<Rightarrow> string option \<Rightarrow> Achievement list io" where
  "fallbackAnalysis E githubData' additionalContext' =
     try_catch
       (bind (model_text E) (\<lambda>text.
        bind (lift (JSON_parse E (trim (stripCodeFence (trim text))))) (\<lambda>achievements'.
          parsedAchievements E ''ai-fallback-'' achievements')))
       (\<lambda>error.
          bind
            (if length (commits githubData') > 0 then
               bind (now E) (\<lambda>t.
                 ret [basicAchievement t 0
                   (''Completed '' @ natToString (length (commits githubData')) @
                    '' code commits with various improvements and fixes.'')])
             else ret [])
            (\<lambda>a1.
          bind
            (if length (pullRequests githubData') > 0 then
               bind (now E) (\<lambda>t.
                 ret (a1 @ [basicAchievement t 1
                   (''Submitted '' @ natToString (length (pullRequests githubData')) @
                    '' pull request(s) for code review and integration.'')]))
             else ret a1)
            (\<lambda>a2.
          if truthy additionalContext' then
            bind (now E) (\<lambda>t.
              ret (a2 @ [basicAchievement t 2
                ''Documented research findings and additional project context.'']))
          else ret a2)))"

definition analyzeGitHubActivity ::
  "env \<Rightarrow> GitHubData \<Rightarrow> string option \<Rightarrow> string list \<Rightarrow> Achievement list io" where
  "analyzeGitHubActivity E githubData' additionalContext' pdfFiles =
     try_catch
       (quickAnalyze E githubData' additionalContext' pdfFiles)
       (\<lambda>error. fallbackAnalysis E githubData' additionalContext')"

text \<open>
  The handler of \<open>POST /api/analyze\<close>, from the parsed request on. \<open>fetched\<close> is the outcome
  of \<open>fetchGitHubData\<close>, which belongs to the source-control client: the data, or the error
  it raised. \<open>pdfFiles\<close> are the names of the uploaded files.
\<close>

record AnalyzeRequest =
  req_accessToken :: "string option"
  req_repoUrl :: "string option"
  req_startDate :: "string option"
  req_endDate :: "string option"
  req_notionContent :: "string option"

datatype responseBody =
    AchievementsBody "Achievement list"
  | ErrorBody string "string option"

record Response =
  status :: nat
  body :: responseBody

definition noDataAchievement :: "string \<Rightarrow> string \<Rightarrow> Achievement" where
  "noDataAchievement startDate' endDate' =
     \<lparr>ach_id = ''no-data-found'',
      ach_text = JStr
        (''No code changes, pull requests, or additional notes were found within the specified timeframe ('' @
         startDate' @ '' to '' @ endDate' @
         ''). Consider expanding your date range or checking if there was any repository activity during this period.''),
      ach_selected = True,
      ach_source = ''system''\<rparr>"

definition POST :: "env \<Rightarrow> AnalyzeRequest \<Rightarrow> error + GitHubData \<Rightarrow> string list \<Rightarrow> Response io" where
  "POST E req fetched pdfFiles =
     try_catch
       (if \<not> truthy (req_accessToken req) \<or> \<not> truthy (req_repoUrl req) \<or>
           \<not> truthy (req_startDate req) \<or> \<not> truthy (req_endDate req)
        then ret \<lparr>status = 400, body = ErrorBody ''Missing required parameters'' None\<rparr>
        else
          bind (lift fetched) (\<lambda>githubData'.
            (let hasCommits = length (commits githubData') > 0;
                 hasPRs = length (pullRequests githubData') > 0;
                 hasNotionContent =
                   (truthy (req_notionContent req) \<and>
                    length (trim (orEmpty (req_notionContent req))) > 0)
             in
               if \<not> hasCommits \<and> \<not> hasPRs \<and> \<not> hasNotionContent then
                 ret \<lparr>status = 200,
                      body = AchievementsBody
                        [noDataAchievement (orEmpty (req_startDate req)) (orEmpty (req_endDate req))]\<rparr>
               else
                 bind (analyzeGitHubActivity E githubData' (req_notionContent req) pdfFiles)
                   (\<lambda>achievements'.
                      ret \<lparr>status = 200, body = AchievementsBody achievements'\<rparr>))))
       (\<lambda>error.
          ret \<lparr>status = 500,
               body = ErrorBody ''Failed to analyze GitHub data'' (Some (message error))\<rparr>)"

section \<open>Properties of the rate limiter\<close>

lemma prune_fields [simp]:
  "maxRequests (prune t rl) = maxRequests rl"
  "timeWindow (prune t rl) = timeWindow rl"
  "requests (prune t rl) = filter (inWindow rl t) (requests rl)"
  by (simp_all add: prune_def inWindow_def [abs_def])

lemma inWindow_prune [simp]: "inWindow (prune u rl) = inWindow rl"
  by (simp add: inWindow_def fun_eq_iff)

lemma inWindow_later: "T \<le> t \<Longrightarrow> inWindow rl t x \<Longrightarrow> inWindow rl T x"
  by (cases "timeWindow rl") (simp_all add: inWindow_def num_of_int_def)

lemma filter_later:
  assumes "T \<le> t"
  shows "length (filter (inWindow rl t) xs) \<le> length (filter (inWindow rl T) xs)"
proof -
  have "filter (inWindow rl t) xs = filter (inWindow rl t) (filter (inWindow rl T) xs)"
    using inWindow_later [OF assms] by (auto intro!: filter_cong)
  then show ?thesis by (metis length_filter_le)
qed

lemma window_ok_later: "window_ok m T rl \<Longrightarrow> T \<le> t \<Longrightarrow> window_ok m t rl"
  unfolding window_ok_def using filter_later [of T t rl "requests rl"] by linarith

lemma window_ok_prune: "window_ok m T rl \<Longrightarrow> T \<le> t \<Longrightarrow> window_ok m t (prune t rl)"
  using window_ok_later [of m T rl t] by (simp add: window_ok_def)

lemma window_ok_prune_len:
  "window_ok m T rl \<Longrightarrow> T \<le> t \<Longrightarrow> int (length (requests (prune t rl))) \<le> m"
  using window_ok_later [of m T rl t] by (simp add: window_ok_def)

lemma num_ge_whole [simp]: "num_ge (num_of_int k) (num_of_int m) = (m \<le> k)"
  by (auto simp: num_ge_def num_of_int_def)

lemma num_less_whole [simp]: "num_less (num_of_int k) (num_of_int m) = (k < m)"
  by (simp add: num_of_int_def)

lemma num_sub_whole [simp]: "num_sub (num_of_int m) (num_of_int k) = num_of_int (m - k)"
  by (simp add: num_sub_def num_of_int_def)

text \<open>A call that had to wait is recorded when its oldest predecessor has left the window,
  so the window stays within the limit.\<close>

lemma window_ok_wait:
  assumes ok: "window_ok m T rl" and T: "T \<le> t" "t \<le> t2" and m: "1 \<le> m"
    and mx: "maxRequests rl = num_of_int m" and fin: "timeWindow rl \<noteq> Infinity"
    and th: "timer_honoured t t2 rl"
  shows "window_ok m t2 (waitForAvailability t t2 rl)"
proof -
  let ?xs = "requests (prune t rl)"
  have len: "int (length ?xs) \<le> m"
    using window_ok_prune_len [OF ok T(1)] .
  have req: "requests (waitForAvailability t t2 rl) = ?xs @ [t2]"
    and iw: "inWindow (waitForAvailability t t2 rl) = inWindow rl"
    by (simp_all add: waitForAvailability_def waitForAvailability_record_def
        waitForAvailability_check_def Let_def inWindow_def fun_eq_iff)
  show ?thesis
  proof (cases "m \<le> int (length ?xs)")
    case False
    have "length (filter (inWindow rl t2) (?xs @ [t2])) \<le> length (?xs @ [t2])"
      by (rule length_filter_le)
    with False show ?thesis unfolding window_ok_def req iw by simp
  next
    case True
    with m have ne: "?xs \<noteq> []" by auto
    define oldest where "oldest = Min (set ?xs)"
    have oin: "oldest \<in> set ?xs"
      unfolding oldest_def using ne by (metis Min_in List.finite_set set_empty)
    have out: "\<not> inWindow rl t2 oldest"
    proof (cases "timeWindow rl")
      case (Num W)
      have "fst (waitForAvailability_check t rl) =
              Some (Num (W - (of_int t - of_int oldest) + 1000))"
        using True ne Num mx
        by (simp add: waitForAvailability_check_def Let_def oldest_def Math_min_def
            num_sub_def num_of_int_def num_ge_def)
      with th have "of_int t + (W - (of_int t - of_int oldest) + 1000) \<le> (of_int t2 :: real)"
        by (simp add: timer_honoured_def)
      then show ?thesis using Num by (simp add: inWindow_def num_of_int_def)
    qed (use fin in \<open>simp_all add: inWindow_def num_of_int_def\<close>)
    with oin have "length (filter (inWindow rl t2) ?xs) < length ?xs"
      by (rule length_filter_less)
    with len show ?thesis unfolding window_ok_def req iw by simp
  qed
qed

lemma step_fields [simp]:
  "maxRequests (step opn rl) = maxRequests rl"
  "timeWindow (step opn rl) = timeWindow rl"
  by (cases opn; simp add: canMakeRequest_def getUsageStats_def Let_def waitForAvailability_def
      waitForAvailability_record_def waitForAvailability_check_def)+

lemma run_fields [simp]:
  "maxRequests (run ops rl) = maxRequests rl"
  "timeWindow (run ops rl) = timeWindow rl"
  by (induction ops arbitrary: rl; simp)+

lemma window_ok_run:
  "window_ok m T rl \<Longrightarrow> 1 \<le> m \<Longrightarrow> maxRequests rl = num_of_int m \<Longrightarrow>
   timeWindow rl \<noteq> Infinity \<Longrightarrow> well_timed T (ops @ [GetUsageStats t]) rl \<Longrightarrow>
   window_ok m t (prune t (run ops rl))"
proof (induction ops arbitrary: T rl)
  case Nil
  then show ?case using window_ok_prune [of m T rl t] by simp
next
  case (Cons opn ops)
  have keep: "maxRequests (step opn rl) = num_of_int m" "timeWindow (step opn rl) \<noteq> Infinity"
    using Cons.prems(3,4) by simp_all
  show ?case
  proof (cases opn)
    case (CanMakeRequest u)
    with Cons.prems have "window_ok m u (step opn rl)"
      "well_timed u (ops @ [GetUsageStats t]) (step opn rl)"
      using window_ok_prune [of m T rl u] by (simp_all add: canMakeRequest_def Let_def)
    with Cons.IH [of u "step opn rl"] Cons.prems(2) keep show ?thesis by simp
  next
    case (GetUsageStats u)
    with Cons.prems have "window_ok m u (step opn rl)"
      "well_timed u (ops @ [GetUsageStats t]) (step opn rl)"
      using window_ok_prune [of m T rl u] by (simp_all add: getUsageStats_def Let_def)
    with Cons.IH [of u "step opn rl"] Cons.prems(2) keep show ?thesis by simp
  next
    case (WaitForAvailability u u2)
    with Cons.prems have "window_ok m u2 (step opn rl)"
      "well_timed u2 (ops @ [GetUsageStats t]) (step opn rl)"
      using window_ok_wait [of m T rl u u2] by simp_all
    with Cons.IH [of u2 "step opn rl"] Cons.prems(2) keep show ?thesis by simp
  next
    case (Execute u u2)
    with Cons.prems have "window_ok m u2 (step opn rl)"
      "well_timed u2 (ops @ [GetUsageStats t]) (step opn rl)"
      using window_ok_wait [of m T rl u u2] by simp_all
    with Cons.IH [of u2 "step opn rl"] Cons.prems(2) keep show ?thesis by simp
  qed
qed

text \<open>
  Claim C7, as the code has it. \<open>getUsageStats\<close> prunes first. In every state of the limiter
  and at every clock reading \<open>t\<close>, \<open>current\<close> is the number of recorded timestamps inside the
  window at \<open>t\<close>, \<open>max\<close> is the limit, and \<open>remaining\<close> is \<open>maxRequests - current\<close>, computed
  as the engine subtracts numbers and with no clamp at zero: for a finite limit it is
  \<open>max 0 (maxRequests - current)\<close> exactly when \<open>current\<close> does not exceed the limit, and it is
  negative otherwise. For a limiter that starts with no
  recorded call, whose limit is a whole number of at least one and whose window is not
  infinite, and that is used by one caller at a time (each operation finished before the
  next, the clock never going back, no timer firing early), \<open>current\<close> never exceeds the
  limit after any sequence of operations, so there \<open>remaining\<close> is
  \<open>max 0 (maxRequests - current)\<close> and is never negative.
\<close>

theorem getUsageStats_sequential:
  "(let stats = fst (getUsageStats t rl) in
      st_current stats =
        int (length (filter (\<lambda>x. num_less (num_of_int (t - x)) (timeWindow rl)) (requests rl))) \<and>
      st_max stats = maxRequests rl \<and>
      st_remaining stats = num_sub (maxRequests rl) (num_of_int (st_current stats)) \<and>
      (\<forall>limit. maxRequests rl = Num limit \<longrightarrow>
         st_remaining stats = Num (limit - of_int (st_current stats)) \<and>
         (st_remaining stats = Num (max 0 (limit - of_int (st_current stats)))) =
           (of_int (st_current stats) \<le> limit))) \<and>
   (requests rl0 = [] \<and> maxRequests rl0 = num_of_int m \<and> 1 \<le> m \<and>
    timeWindow rl0 \<noteq> Infinity \<and> well_timed T (ops @ [GetUsageStats t]) rl0 \<longrightarrow>
    (let stats = fst (getUsageStats t (run ops rl0)) in
       st_current stats \<le> m \<and>
       st_remaining stats = num_of_int (m - st_current stats) \<and>
       st_remaining stats = num_of_int (max 0 (m - st_current stats)) \<and>
       \<not> num_less (st_remaining stats) (Num 0)))"
proof -
  have always:
    "let stats = fst (getUsageStats t rl) in
      st_current stats =
        int (length (filter (\<lambda>x. num_less (num_of_int (t - x)) (timeWindow rl)) (requests rl))) \<and>
      st_max stats = maxRequests rl \<and>
      st_remaining stats = num_sub (maxRequests rl) (num_of_int (st_current stats)) \<and>
      (\<forall>limit. maxRequests rl = Num limit \<longrightarrow>
         st_remaining stats = Num (limit - of_int (st_current stats)) \<and>
         (st_remaining stats = Num (max 0 (limit - of_int (st_current stats)))) =
           (of_int (st_current stats) \<le> limit))"
    by (auto simp add: getUsageStats_def Let_def inWindow_def [abs_def] num_of_int_def
        num_sub_def)
  have sequential:
    "let stats = fst (getUsageStats t (run ops rl0)) in
       st_current stats \<le> m \<and>
       st_remaining stats = num_of_int (m - st_current stats) \<and>
       st_remaining stats = num_of_int (max 0 (m - st_current stats)) \<and>
       \<not> num_less (st_remaining stats) (Num 0)"
    if start: "requests rl0 = []" "maxRequests rl0 = num_of_int m" "1 \<le> m"
      "timeWindow rl0 \<noteq> Infinity" and timed: "well_timed T (ops @ [GetUsageStats t]) rl0"
  proof -
    have ok0: "window_ok m T rl0"
      using start by (simp add: window_ok_def)
    have "window_ok m t (prune t (run ops rl0))"
      using window_ok_run [OF ok0 start(3) start(2) start(4) timed] .
    then have "int (length (filter (inWindow (run ops rl0) t) (requests (run ops rl0)))) \<le> m"
      unfolding window_ok_def by simp
    then show ?thesis
      using start(2) by (simp add: getUsageStats_def Let_def num_of_int_def num_sub_def)
  qed
  from always sequential show ?thesis by blast
qed

theorem getUsageStats_sequential_witness:
  "(requests (new_RateLimiter (Num 1) (Num 1)) = [] \<and>
    maxRequests (new_RateLimiter (Num 1) (Num 1)) = num_of_int 1 \<and> (1 :: int) \<le> 1 \<and>
    timeWindow (new_RateLimiter (Num 1) (Num 1)) \<noteq> Infinity \<and>
    well_timed 0 ([Execute 0 0, CanMakeRequest 5, Execute 10 61000] @ [GetUsageStats 61500])
      (new_RateLimiter (Num 1) (Num 1))) \<and>
   (requests (run [Execute 0 0, CanMakeRequest 5, Execute 10 61000] (new_RateLimiter (Num 1) (Num 1))) = [0, 61000] \<and>
    maxRequests (run [Execute 0 0, CanMakeRequest 5, Execute 10 61000] (new_RateLimiter (Num 1) (Num 1))) = Num 1 \<and>
    fst (getUsageStats 61500 (run [Execute 0 0, CanMakeRequest 5, Execute 10 61000] (new_RateLimiter (Num 1) (Num 1)))) =
      \<lparr>st_current = 1, st_max = Num 1, st_remaining = Num 0\<rparr>) \<and>
   (let stats = fst (getUsageStats 61500 (run [Execute 0 0, CanMakeRequest 5, Execute 10 61000] (new_RateLimiter (Num 1) (Num 1))))
    in (st_remaining stats = Num (1 - of_int (st_current stats)) \<and>
        (st_remaining stats = Num (max 0 (1 - of_int (st_current stats)))) =
          (of_int (st_current stats) \<le> (1 :: real))) \<and>
       st_current stats \<le> 1 \<and>
       st_remaining stats = num_of_int (1 - st_current stats) \<and>
       st_remaining stats = num_of_int (max 0 (1 - st_current stats)) \<and>
       \<not> num_less (st_remaining stats) (Num 0))"
proof -
  have start:
    "requests (new_RateLimiter (Num 1) (Num 1)) = [] \<and>
     maxRequests (new_RateLimiter (Num 1) (Num 1)) = num_of_int 1 \<and> (1 :: int) \<le> 1 \<and>
     timeWindow (new_RateLimiter (Num 1) (Num 1)) \<noteq> Infinity \<and>
     well_timed 0 ([Execute 0 0, CanMakeRequest 5, Execute 10 61000] @ [GetUsageStats 61500])
       (new_RateLimiter (Num 1) (Num 1))"
    by code_simp
  have answer:
    "requests (run [Execute 0 0, CanMakeRequest 5, Execute 10 61000] (new_RateLimiter (Num 1) (Num 1))) = [0, 61000] \<and>
     maxRequests (run [Execute 0 0, CanMakeRequest 5, Execute 10 61000] (new_RateLimiter (Num 1) (Num 1))) = Num 1 \<and>
     fst (getUsageStats 61500 (run [Execute 0 0, CanMakeRequest 5, Execute 10 61000] (new_RateLimiter (Num 1) (Num 1)))) =
       \<lparr>st_current = 1, st_max = Num 1, st_remaining = Num 0\<rparr>"
    by code_simp
  from start answer
    getUsageStats_sequential
      [of 61500 "run [Execute 0 0, CanMakeRequest 5, Execute 10 61000] (new_RateLimiter (Num 1) (Num 1))" "new_RateLimiter (Num 1) (Num 1)" 1 0 "[Execute 0 0, CanMakeRequest 5, Execute 10 61000]"]
  show ?thesis unfolding Let_def by blast
qed

text \<open>
  Claim C7 as stated fails. On the default limiter (10 calls a minute) holding ten calls
  recorded at 0, 2000, ..., 18000, two calls of \<open>waitForAvailability\<close> that overlap (both
  check at 20000, both wait 41000 ms, both record at 61000) leave eleven timestamps inside
  the window: \<open>getUsageStats\<close> answers \<open>current = 11\<close> and \<open>remaining = -1\<close>, not
  \<open>max 0 (10 - 11) = 0\<close>. A limiter created with a limit of 0 gives \<open>remaining = -1\<close> after one
  call: its wait is computed from an empty list and is not finite, and the call is recorded
  as soon as the timer lets it go. A limiter created with a limit of 1.5 lets one caller
  record two calls with no wait, one after the other, and answers \<open>remaining = -0.5\<close>. A
  limiter created with an infinite window never forgets a call and computes an infinite
  wait, which no timer keeps: with a limit of 1 the second call of one caller is recorded
  all the same, and \<open>remaining\<close> is \<open>-1\<close>.
\<close>

theorem getUsageStats_remaining_counterexample:
  "(let rl10 = run [Execute 0 0, Execute 2000 2000, Execute 4000 4000, Execute 6000 6000,
                    Execute 8000 8000, Execute 10000 10000, Execute 12000 12000,
                    Execute 14000 14000, Execute 16000 16000, Execute 18000 18000]
                 (new_RateLimiter (Num 10) (Num 1));
        checkedA = snd (waitForAvailability_check 20000 rl10);
        checkedB = snd (waitForAvailability_check 20000 checkedA);
        recordedA = waitForAvailability_record 61000 checkedB;
        recordedB = waitForAvailability_record 61000 recordedA;
        stats = fst (getUsageStats 61000 recordedB)
    in fst (waitForAvailability_check 20000 rl10) = Some (Num 41000) \<and>
       fst (waitForAvailability_check 20000 checkedA) = Some (Num 41000) \<and>
       st_current stats = 11 \<and> st_max stats = Num 10 \<and> st_remaining stats = Num (- 1) \<and>
       st_remaining stats \<noteq> Num (max 0 (10 - of_int (st_current stats)))) \<and>
   (let stats = fst (getUsageStats 1 (run [WaitForAvailability 0 1] (new_RateLimiter (Num 0) (Num 1))))
    in fst (waitForAvailability_check 0 (new_RateLimiter (Num 0) (Num 1))) = Some Infinity \<and>
       st_current stats = 1 \<and> st_max stats = Num 0 \<and> st_remaining stats = Num (- 1) \<and>
       st_remaining stats \<noteq> Num (max 0 (0 - of_int (st_current stats)))) \<and>
   (let rl0 = new_RateLimiter (Num (3 / 2)) (Num 1);
        stats = fst (getUsageStats 2 (run [Execute 0 0, Execute 1 1] rl0))
    in well_timed 0 [Execute 0 0, Execute 1 1, GetUsageStats 2] rl0 \<and>
       st_current stats = 2 \<and> st_max stats = Num (3 / 2) \<and>
       st_remaining stats = Num (- (1 / 2)) \<and>
       st_remaining stats \<noteq> Num (max 0 (3 / 2 - of_int (st_current stats)))) \<and>
   (let rl0 = new_RateLimiter (Num 1) Infinity;
        stats = fst (getUsageStats 2 (run [Execute 0 0, Execute 1 2] rl0))
    in well_timed 0 [Execute 0 0, Execute 1 2, GetUsageStats 2] rl0 \<and>
       fst (waitForAvailability_check 1 (run [Execute 0 0] rl0)) = Some Infinity \<and>
       st_current stats = 2 \<and> st_max stats = Num 1 \<and> st_remaining stats = Num (- 1) \<and>
       st_remaining stats \<noteq> Num (max 0 (1 - of_int (st_current stats))))"
  by code_simp

text \<open>
  Claim C9. Every operation that looks at the list of calls (\<open>canMakeRequest\<close>,
  \<open>getUsageStats\<close>, and the check of \<open>waitForAvailability\<close>) prunes it first: whatever the
  state before, and so after any sequence of operations, the list it sees holds no
  timestamp older than the window. A call of
  \<open>waitForAvailability\<close> is always recorded (the pruned list with the new timestamp at its
  end; nothing is rejected), and a wait is computed exactly when the number of calls in
  the window has reached the limit: \<open>timeWindow - (now - oldest) + 1000\<close>.
\<close>

theorem rate_window_invariant:
  "(\<forall>x \<in> set (requests (snd (canMakeRequest t rl))).
      num_less (num_of_int (t - x)) (timeWindow rl)) \<and>
   (\<forall>x \<in> set (requests (snd (getUsageStats t rl))).
      num_less (num_of_int (t - x)) (timeWindow rl)) \<and>
   (\<forall>x \<in> set (requests (snd (waitForAvailability_check t rl))).
      num_less (num_of_int (t - x)) (timeWindow rl)) \<and>
   (\<forall>x \<in> set (requests (snd (canMakeRequest t (run ops rl)))).
      num_less (num_of_int (t - x)) (timeWindow rl)) \<and>
   (\<forall>x \<in> set (requests (snd (getUsageStats t (run ops rl)))).
      num_less (num_of_int (t - x)) (timeWindow rl)) \<and>
   requests (waitForAvailability t t2 rl) =
     filter (\<lambda>x. num_less (num_of_int (t - x)) (timeWindow rl)) (requests rl) @ [t2] \<and>
   (fst (waitForAvailability_check t rl) \<noteq> None) =
     num_ge
       (num_of_int
          (int (length (filter (\<lambda>x. num_less (num_of_int (t - x)) (timeWindow rl)) (requests rl)))))
       (maxRequests rl) \<and>
   (num_ge
      (num_of_int
         (int (length (filter (\<lambda>x. num_less (num_of_int (t - x)) (timeWindow rl)) (requests rl)))))
      (maxRequests rl) \<and>
    filter (\<lambda>x. num_less (num_of_int (t - x)) (timeWindow rl)) (requests rl) \<noteq> [] \<longrightarrow>
    fst (waitForAvailability_check t rl) =
      Some (num_add
        (num_sub (timeWindow rl)
           (num_of_int
              (t - Min (set (filter (\<lambda>x. num_less (num_of_int (t - x)) (timeWindow rl))
                               (requests rl))))))
        (Num 1000)))"
  by (simp add: canMakeRequest_def getUsageStats_def waitForAvailability_def
      waitForAvailability_record_def waitForAvailability_check_def Let_def Math_min_def
      prune_def)

theorem rate_window_invariant_witness:
  "(let rl = \<lparr>requests = [0, 30000, 50000], maxRequests = Num 2, timeWindow = Num 60000\<rparr> in
      requests (snd (canMakeRequest 70000 rl)) = [30000, 50000] \<and>
      requests (snd (getUsageStats 70000 rl)) = [30000, 50000] \<and>
      requests (waitForAvailability 70000 91000 rl) = [30000, 50000, 91000] \<and>
      fst (waitForAvailability_check 70000 rl) = Some (Num 21000))"
proof -
  define rl where
    "rl = \<lparr>requests = [0, 30000, 50000], maxRequests = Num 2, timeWindow = Num 60000\<rparr>"
  define window where
    "window = filter (\<lambda>x. num_less (num_of_int (70000 - x)) (timeWindow rl)) (requests rl)"
  have full: "num_ge (num_of_int (int (length window))) (maxRequests rl) \<and> window \<noteq> []"
    unfolding window_def rl_def by code_simp
  have wait:
    "num_add (num_sub (timeWindow rl) (num_of_int (70000 - Min (set window)))) (Num 1000) =
       Num 21000"
    unfolding window_def rl_def by code_simp
  have recorded:
    "requests (snd (canMakeRequest 70000 rl)) = [30000, 50000] \<and>
     requests (snd (getUsageStats 70000 rl)) = [30000, 50000] \<and>
     requests (waitForAvailability 70000 91000 rl) = [30000, 50000, 91000]"
    unfolding rl_def by code_simp
  from full rate_window_invariant [of 70000 rl "[]" 91000]
  have "fst (waitForAvailability_check 70000 rl) =
      Some (num_add (num_sub (timeWindow rl) (num_of_int (70000 - Min (set window)))) (Num 1000))"
    unfolding window_def by blast
  then have "fst (waitForAvailability_check 70000 rl) = Some (Num 21000)"
    unfolding wait .
  with recorded show ?thesis
    unfolding Let_def rl_def by blast
qed
section \<open>Properties of the categorizer\<close>

lemma fallbackClassification_valid: "fallbackClassification E activity \<in> set validCategories"
  by (simp add: fallbackClassification_def validCategories_def Let_def)

text \<open>
  Claim C1. For every activity string and every behaviour of the model, \<open>classifyActivity\<close>
  returns (it raises nothing) and its value is one of the eight valid categories. When the
  model call fails the value is the keyword classification of the activity; when the model
  answers, the value is the trimmed, lower-cased answer if that is a valid category and the
  keyword classification otherwise.
\<close>

theorem classifyActivity_in_taxonomy:
  "\<exists>c. classifyActivity E activity w = (Inr c, w\<lparr>calls := calls w + 1\<rparr>) \<and>
        c \<in> set validCategories \<and>
        c = (case generateContent E (calls w) of
               Inl e \<Rightarrow> fallbackClassification E activity
             | Inr text \<Rightarrow>
                 if toLowerCase E (trim text) \<in> set validCategories then toLowerCase E (trim text)
                 else fallbackClassification E activity)"
proof (cases "generateContent E (calls w)")
  case (Inl e)
  then show ?thesis
    using fallbackClassification_valid [of E activity]
    by (simp add: classifyActivity_def try_catch_def bind_def model_text_def ret_def)
next
  case (Inr answer)
  then show ?thesis
    using fallbackClassification_valid [of E activity]
    by (simp add: classifyActivity_def try_catch_def bind_def model_text_def ret_def Let_def)
qed

lemma sampleEngine_fields [simp]:
  "generateContent (sampleEngine answers parse clock) = answers"
  "JSON_parse (sampleEngine answers parse clock) = parse"
  "Date_now (sampleEngine answers parse clock) = clock"
  "toLowerCase (sampleEngine answers parse clock) = asciiLowerCase"
  "toUpperCase (sampleEngine answers parse clock) = asciiUpperCase"
  "Number_add (sampleEngine answers parse clock) = (+)"
  by (simp_all add: sampleEngine_def)

lemma classification_examples:
  "asciiLowerCase (trim ''  Banana '') = ''banana''"
  "fallbackClassification (sampleEngine (\<lambda>k. Inr ''  Banana '') (\<lambda>s. Inl SyntaxError) (\<lambda>k. 0))
     ''fix: null pointer in parser'' = ''fix''"
  by code_simp+

theorem classifyActivity_in_taxonomy_witness:
  "classifyActivity
     (sampleEngine (\<lambda>k. Inr ''  Banana '') (\<lambda>s. Inl SyntaxError) (\<lambda>k. 0))
     ''fix: null pointer in parser''
     \<lparr>calls = 0, ticks = 0, geminiRateLimiter = new_RateLimiter (Num 10) (Num 1)\<rparr> =
   (Inr ''fix'', \<lparr>calls = 1, ticks = 0, geminiRateLimiter = new_RateLimiter (Num 10) (Num 1)\<rparr>)"
  using classifyActivity_in_taxonomy
    [of "sampleEngine (\<lambda>k. Inr ''  Banana '') (\<lambda>s. Inl SyntaxError) (\<lambda>k. 0)"
        "''fix: null pointer in parser''"
        "\<lparr>calls = 0, ticks = 0, geminiRateLimiter = new_RateLimiter (Num 10) (Num 1)\<rparr>"]
  by (auto simp: classification_examples validCategories_def)

lemma grouped_push_eq:
  "category a \<in> set validCategories \<Longrightarrow> grouped_push g a = Inr (appendByCategory [a] g)"
  by (auto simp: grouped_push_def validCategories_def Let_def appendByCategory_def)

lemma grouped_push_Inr:
  "grouped_push g a = Inr g' \<Longrightarrow> category a \<in> set validCategories"
  by (auto simp: grouped_push_def validCategories_def Let_def split: if_splits)

lemma appendByCategory_append:
  "appendByCategory ys (appendByCategory xs g) = appendByCategory (xs @ ys) g"
  by (simp add: appendByCategory_def)

lemma groupByCategory_loop_eq:
  "\<forall>a \<in> set acts. category a \<in> set validCategories \<Longrightarrow>
   groupByCategory_loop acts g = Inr (appendByCategory acts g)"
proof (induction acts arbitrary: g)
  case Nil
  show ?case by (simp add: appendByCategory_def)
next
  case (Cons a acts)
  have "grouped_push g a = Inr (appendByCategory [a] g)"
    using Cons.prems by (simp add: grouped_push_eq)
  moreover have "groupByCategory_loop acts (appendByCategory [a] g) =
      Inr (appendByCategory acts (appendByCategory [a] g))"
    using Cons by simp
  ultimately show ?case by (simp add: appendByCategory_append)
qed

lemma groupByCategory_loop_Inr:
  "groupByCategory_loop acts g = Inr g' \<Longrightarrow> \<forall>a \<in> set acts. category a \<in> set validCategories"
proof (induction acts arbitrary: g)
  case Nil
  show ?case by simp
next
  case (Cons a acts)
  then show ?case
    by (auto split: sum.splits dest: grouped_push_Inr)
qed

lemma groupByCategory_eq:
  "\<forall>a \<in> set acts. category a \<in> set validCategories \<Longrightarrow>
   groupByCategory acts = Inr (appendByCategory acts emptyGrouped)"
  by (simp add: groupByCategory_def groupByCategory_loop_eq)

lemma mset_flatten_appendByCategory:
  "\<forall>a \<in> set acts. category a \<in> set validCategories \<Longrightarrow>
   mset (flattenGrouped (appendByCategory acts emptyGrouped)) = mset acts"
proof (induction acts)
  case Nil
  show ?case by (simp add: flattenGrouped_def appendByCategory_def emptyGrouped_def)
next
  case (Cons a acts)
  then have IH: "mset (flattenGrouped (appendByCategory acts emptyGrouped)) = mset acts"
    by simp
  have "category a \<in> set validCategories" using Cons.prems by simp
  then show ?case using IH
    by (auto simp: flattenGrouped_def appendByCategory_def emptyGrouped_def validCategories_def)
qed

text \<open>
  Claim C5. For every sequence of categorized activities (their categories being valid
  categories), \<open>groupByCategory\<close> returns a grouping whose arrays, flattened, hold exactly the
  activities of the sequence, each as often as it occurs there; the array of a category
  holds the activities of that category in the order of the sequence.
\<close>

theorem groupByCategory_partition:
  assumes "\<forall>a \<in> set activities. category a \<in> set validCategories"
  shows "\<exists>g. groupByCategory activities = Inr g \<and>
           mset (flattenGrouped g) = mset activities \<and>
           grp_feature g = filter (\<lambda>a. category a = ''feature'') activities \<and>
           grp_fix g = filter (\<lambda>a. category a = ''fix'') activities \<and>
           grp_refactor g = filter (\<lambda>a. category a = ''refactor'') activities \<and>
           grp_docs g = filter (\<lambda>a. category a = ''docs'') activities \<and>
           grp_test g = filter (\<lambda>a. category a = ''test'') activities \<and>
           grp_chore g = filter (\<lambda>a. category a = ''chore'') activities \<and>
           grp_performance g = filter (\<lambda>a. category a = ''performance'') activities \<and>
           grp_security g = filter (\<lambda>a. category a = ''security'') activities"
proof -
  have "groupByCategory activities = Inr (appendByCategory activities emptyGrouped)"
    using assms by (rule groupByCategory_eq)
  moreover have "mset (flattenGrouped (appendByCategory activities emptyGrouped)) = mset activities"
    using assms by (rule mset_flatten_appendByCategory)
  ultimately show ?thesis
    by (simp add: appendByCategory_def emptyGrouped_def)
qed

theorem groupByCategory_partition_witness:
  "groupByCategory
     [\<lparr>category = ''fix'', description = ''A.'', impact = ''medium'', source = ''commit'',
       originalText = ''fix: a''\<rparr>,
      \<lparr>category = ''feature'', description = ''B.'', impact = ''medium'', source = ''commit'',
       originalText = ''feat: b''\<rparr>,
      \<lparr>category = ''fix'', description = ''C.'', impact = ''medium'', source = ''pr'',
       originalText = ''fix: c''\<rparr>] =
   Inr (emptyGrouped
     \<lparr>grp_feature :=
        [\<lparr>category = ''feature'', description = ''B.'', impact = ''medium'', source = ''commit'',
          originalText = ''feat: b''\<rparr>],
      grp_fix :=
        [\<lparr>category = ''fix'', description = ''A.'', impact = ''medium'', source = ''commit'',
          originalText = ''fix: a''\<rparr>,
         \<lparr>category = ''fix'', description = ''C.'', impact = ''medium'', source = ''pr'',
          originalText = ''fix: c''\<rparr>]\<rparr>)"
  using groupByCategory_partition
    [of "[\<lparr>category = ''fix'', description = ''A.'', impact = ''medium'', source = ''commit'',
       originalText = ''fix: a''\<rparr>,
      \<lparr>category = ''feature'', description = ''B.'', impact = ''medium'', source = ''commit'',
       originalText = ''feat: b''\<rparr>,
      \<lparr>category = ''fix'', description = ''C.'', impact = ''medium'', source = ''pr'',
       originalText = ''fix: c''\<rparr>]"]
  by (auto simp: validCategories_def emptyGrouped_def)

lemma mset_bucket3:
  "mset (map description (filter (\<lambda>a. category a = c1) acts @ filter (\<lambda>a. category a = c2) acts @
      filter (\<lambda>a. category a = c3) acts)) =
   image_mset description (filter_mset (\<lambda>a. category a \<in> {c1, c2, c3}) (mset acts))"
  if "distinct [c1, c2, c3]"
  using that by (induction acts) auto

lemma mset_bucket4:
  "mset (map description (filter (\<lambda>a. category a = c1) acts @ filter (\<lambda>a. category a = c2) acts @
      filter (\<lambda>a. category a = c3) acts @ filter (\<lambda>a. category a = c4) acts)) =
   image_mset description (filter_mset (\<lambda>a. category a \<in> {c1, c2, c3, c4}) (mset acts))"
  if "distinct [c1, c2, c3, c4]"
  using that by (induction acts) auto

text \<open>
  Claim C4, as the code has it. For every grouping, \<open>mapToWeeklySummaryCategories\<close> puts the
  descriptions of the feature, performance and security arrays into \<open>Features\<close>, those of
  the fix array into \<open>Fixes\<close>, and those of the refactor, docs, test and chore arrays into
  \<open>Refactors\<close>, each array in its order; the three buckets together hold one entry for each
  grouped activity. When the grouping is that of a sequence of activities, each activity
  has its description entered once, in the bucket its category maps to and in no other,
  and the buckets hold as many entries as there are activities. The entries are counted
  with their repetitions: two activities with the same description make two entries, in
  one bucket or in two.
\<close>

theorem mapToWeeklySummaryCategories_buckets:
  "(let b = mapToWeeklySummaryCategories g in
      Features b = map description (grp_feature g @ grp_performance g @ grp_security g) \<and>
      Fixes b = map description (grp_fix g) \<and>
      Refactors b = map description (grp_refactor g @ grp_docs g @ grp_test g @ grp_chore g) \<and>
      mset (Features b) + mset (Fixes b) + mset (Refactors b) =
        image_mset description (mset (flattenGrouped g)) \<and>
      length (Features b) + length (Fixes b) + length (Refactors b) = length (flattenGrouped g) \<and>
      (\<forall>activities. groupByCategory activities = Inr g \<longrightarrow>
         mset (Features b) = image_mset description
           (filter_mset (\<lambda>a. category a \<in> {''feature'', ''performance'', ''security''}) (mset activities)) \<and>
         mset (Fixes b) = image_mset description
           (filter_mset (\<lambda>a. category a = ''fix'') (mset activities)) \<and>
         mset (Refactors b) = image_mset description
           (filter_mset (\<lambda>a. category a \<in> {''refactor'', ''docs'', ''test'', ''chore''}) (mset activities)) \<and>
         length (Features b) + length (Fixes b) + length (Refactors b) = length activities))"
proof -
  let ?b = "mapToWeeklySummaryCategories g"
  have 1: "Features ?b = map description (grp_feature g @ grp_performance g @ grp_security g)"
    "Fixes ?b = map description (grp_fix g)"
    "Refactors ?b = map description (grp_refactor g @ grp_docs g @ grp_test g @ grp_chore g)"
    by (simp_all add: mapToWeeklySummaryCategories_def)
  have 2: "mset (Features ?b) + mset (Fixes ?b) + mset (Refactors ?b) =
        image_mset description (mset (flattenGrouped g))"
    by (simp add: 1 flattenGrouped_def)
  have 3: "length (Features ?b) + length (Fixes ?b) + length (Refactors ?b) = length (flattenGrouped g)"
    by (simp add: 1 flattenGrouped_def)
  have 4: "mset (Features ?b) = image_mset description
           (filter_mset (\<lambda>a. category a \<in> {''feature'', ''performance'', ''security''}) (mset activities)) \<and>
         mset (Fixes ?b) = image_mset description
           (filter_mset (\<lambda>a. category a = ''fix'') (mset activities)) \<and>
         mset (Refactors ?b) = image_mset description
           (filter_mset (\<lambda>a. category a \<in> {''refactor'', ''docs'', ''test'', ''chore''}) (mset activities)) \<and>
         length (Features ?b) + length (Fixes ?b) + length (Refactors ?b) = length activities"
    if g: "groupByCategory activities = Inr g" for activities
  proof -
    have valid: "\<forall>a \<in> set activities. category a \<in> set validCategories"
      using g unfolding groupByCategory_def by (rule groupByCategory_loop_Inr)
    then have geq: "g = appendByCategory activities emptyGrouped"
      using g groupByCategory_eq [OF valid] by simp
    have fl: "mset (flattenGrouped g) = mset activities"
      unfolding geq using valid by (rule mset_flatten_appendByCategory)
    have "length (flattenGrouped g) = length activities"
      using fl by (metis size_mset)
    moreover have "mset (Features ?b) = image_mset description
           (filter_mset (\<lambda>a. category a \<in> {''feature'', ''performance'', ''security''}) (mset activities))"
      using mset_bucket3 [of "''feature''" "''performance''" "''security''" activities]
      by (simp add: mapToWeeklySummaryCategories_def geq appendByCategory_def emptyGrouped_def)
    moreover have "mset (Refactors ?b) = image_mset description
           (filter_mset (\<lambda>a. category a \<in> {''refactor'', ''docs'', ''test'', ''chore''}) (mset activities))"
      using mset_bucket4 [of "''refactor''" "''docs''" "''test''" "''chore''" activities]
      by (simp add: mapToWeeklySummaryCategories_def geq appendByCategory_def emptyGrouped_def)
    moreover have "mset (Fixes ?b) = image_mset description
           (filter_mset (\<lambda>a. category a = ''fix'') (mset activities))"
      by (simp add: mapToWeeklySummaryCategories_def geq appendByCategory_def emptyGrouped_def)
    ultimately show ?thesis using 3 by simp
  qed
  show ?thesis unfolding Let_def using 1 2 3 4 by blast
qed

theorem mapToWeeklySummaryCategories_buckets_witness:
  "(let activities =
          [\<lparr>category = ''fix'', description = ''A.'', impact = ''medium'', source = ''commit'',
            originalText = ''fix: a''\<rparr>,
           \<lparr>category = ''security'', description = ''B.'', impact = ''high'', source = ''commit'',
            originalText = ''auth b''\<rparr>,
           \<lparr>category = ''docs'', description = ''C.'', impact = ''low'', source = ''pr'',
            originalText = ''docs: c''\<rparr>];
        g = emptyGrouped
          \<lparr>grp_fix := [\<lparr>category = ''fix'', description = ''A.'', impact = ''medium'',
              source = ''commit'', originalText = ''fix: a''\<rparr>],
           grp_docs := [\<lparr>category = ''docs'', description = ''C.'', impact = ''low'',
              source = ''pr'', originalText = ''docs: c''\<rparr>],
           grp_security := [\<lparr>category = ''security'', description = ''B.'', impact = ''high'',
              source = ''commit'', originalText = ''auth b''\<rparr>]\<rparr>;
        b = mapToWeeklySummaryCategories g
    in groupByCategory activities = Inr g \<and>
       Features b = [''B.''] \<and> Fixes b = [''A.''] \<and> Refactors b = [''C.''] \<and>
       length (Features b) + length (Fixes b) + length (Refactors b) = length activities)"
  using mapToWeeklySummaryCategories_buckets
    [of "emptyGrouped
          \<lparr>grp_fix := [\<lparr>category = ''fix'', description = ''A.'', impact = ''medium'',
              source = ''commit'', originalText = ''fix: a''\<rparr>],
           grp_docs := [\<lparr>category = ''docs'', description = ''C.'', impact = ''low'',
              source = ''pr'', originalText = ''docs: c''\<rparr>],
           grp_security := [\<lparr>category = ''security'', description = ''B.'', impact = ''high'',
              source = ''commit'', originalText = ''auth b''\<rparr>]\<rparr>"]
  by (simp add: Let_def emptyGrouped_def groupByCategory_def grouped_push_def)

text \<open>
  Claim C4 as stated fails: a description may stand in more than one bucket. With the model
  down, the commits \<open>fix: login\<close> and \<open>feat: login\<close> are classified by keyword as \<open>fix\<close> and as
  \<open>chore\<close>, and both are described as \<open>Login.\<close>: the description of each of the two
  activities is in \<open>Fixes\<close> and in \<open>Refactors\<close>.
\<close>

theorem mapToWeeklySummaryCategories_shared_counterexample:
  "(let activities =
          [\<lparr>category = ''fix'', description = ''Login.'', impact = ''medium'',
            source = ''commit'', originalText = ''fix: login''\<rparr>,
           \<lparr>category = ''chore'', description = ''Login.'', impact = ''low'',
            source = ''commit'', originalText = ''feat: login''\<rparr>]
    in fst (classifyActivities
              (sampleEngine (\<lambda>k. Inl (Error ''unavailable'')) (\<lambda>s. Inl SyntaxError) (\<lambda>k. 0))
              [''fix: login'', ''feat: login''] ''commit''
              \<lparr>calls = 0, ticks = 0, geminiRateLimiter = new_RateLimiter (Num 10) (Num 1)\<rparr>) =
         Inr activities \<and>
       (case groupByCategory activities of
          Inl e \<Rightarrow> False
        | Inr g \<Rightarrow>
            (let b = mapToWeeklySummaryCategories g in
               Features b = [] \<and> Fixes b = [''Login.''] \<and> Refactors b = [''Login.''] \<and>
               list_all
                 (\<lambda>a. description a \<in> set (Fixes b) \<and> description a \<in> set (Refactors b))
                 activities)))"
  by code_simp

section \<open>Properties of the deduplication\<close>

lemma indexOf_from_in:
  "x \<in> set xs \<Longrightarrow> \<exists>k<length xs. indexOf_from xs x i = i + int k \<and> xs ! k = x"
proof (induction xs arbitrary: i)
  case Nil
  then show ?case by simp
next
  case (Cons y ys)
  show ?case
  proof (cases "y = x")
    case True
    have "0 < length (y # ys) \<and> indexOf_from (y # ys) x i = i + int 0 \<and> (y # ys) ! 0 = x"
      using True by simp
    then show ?thesis by blast
  next
    case False
    with Cons.prems have "x \<in> set ys" by simp
    from Cons.IH [OF this, of "i + 1"] obtain k where
      k: "k < length ys" "indexOf_from ys x (i + 1) = i + 1 + int k" "ys ! k = x" by blast
    have "Suc k < length (y # ys) \<and> indexOf_from (y # ys) x i = i + int (Suc k) \<and>
        (y # ys) ! Suc k = x"
      using False k by simp
    then show ?thesis by blast
  qed
qed

lemma set_firstOccurrences: "set (firstOccurrences arr) = set arr"
proof
  show "set (firstOccurrences arr) \<subseteq> set arr"
  proof
    fix x assume "x \<in> set (firstOccurrences arr)"
    then obtain p where p: "p \<in> set (enumerate 0 arr)" "x = snd p"
      unfolding firstOccurrences_def by auto
    then have "fst p < length arr" "arr ! fst p = snd p"
      by (simp_all add: in_set_enumerate_eq)
    then show "x \<in> set arr" using p(2) by (metis nth_mem)
  qed
  show "set arr \<subseteq> set (firstOccurrences arr)"
  proof
    fix x assume "x \<in> set arr"
    from indexOf_from_in [OF this, of 0] obtain k where
      k: "k < length arr" "indexOf arr x = int k" "arr ! k = x"
      by (auto simp: indexOf_def)
    then have "(k, x) \<in> set (enumerate 0 arr)" by (simp add: in_set_enumerate_eq)
    with k(2) have "(k, x) \<in> set (filter (\<lambda>(index, item). indexOf arr item = int index) (enumerate 0 arr))"
      by simp
    then have "snd (k, x) \<in> set (firstOccurrences arr)"
      unfolding firstOccurrences_def set_map by (rule imageI)
    then show "x \<in> set (firstOccurrences arr)" by simp
  qed
qed

lemma distinct_firstOccurrences: "distinct (firstOccurrences arr)"
  unfolding firstOccurrences_def
  by (auto simp: distinct_map inj_on_def)

lemma take_sorted_bound:
  assumes "sorted (map f ys)" "a \<in> set (take n ys)" "b \<in> set (drop n ys)"
  shows "f a \<le> (f b :: int)"
proof -
  have "sorted (map f (take n ys) @ map f (drop n ys))"
    using assms(1) by (metis append_take_drop_id map_append)
  then show ?thesis using assms(2,3) by (auto simp: sorted_append)
qed

text \<open>
  Claim C8, as the code has it. \<open>deduplicateAndPrioritize\<close> returns no item twice, returns
  only items of the list whose trimmed length is greater than 10 (an item whose trimmed
  length is 10 or less is removed), in order of decreasing length, and at most ten of them.
  An item with trimmed length above 10 is left out only by the cap: the result then has
  ten items, each at least as long.
\<close>

theorem deduplicateAndPrioritize_ranked:
  "(let result = deduplicateAndPrioritize items in
      distinct result \<and>
      set result \<subseteq> {item \<in> set items. 10 < length (trim item)} \<and>
      sorted_wrt (\<lambda>a b. length b \<le> length a) result \<and>
      length result \<le> 10 \<and>
      (\<forall>item \<in> set items. 10 < length (trim item) \<longrightarrow> item \<notin> set result \<longrightarrow>
         length result = 10 \<and> (\<forall>kept \<in> set result. length item \<le> length kept)))"
proof -
  define u where "u = filter (\<lambda>item. 10 < length (trim item)) (firstOccurrences items)"
  define ys where "ys = sort_key (\<lambda>a. - int (length a)) u"
  have r: "deduplicateAndPrioritize items = take 10 ys"
    by (simp add: deduplicateAndPrioritize_def u_def ys_def)
  have set_ys: "set ys = {item \<in> set items. 10 < length (trim item)}"
    by (auto simp: ys_def u_def set_firstOccurrences)
  have dist_ys: "distinct ys"
    by (simp add: ys_def u_def distinct_firstOccurrences)
  have sorted_ys: "sorted (map (\<lambda>a. - int (length a)) ys)"
    by (simp add: ys_def)
  have 1: "distinct (take 10 ys)" using dist_ys by simp
  have 2: "set (take 10 ys) \<subseteq> {item \<in> set items. 10 < length (trim item)}"
    using set_ys set_take_subset by fastforce
  have "sorted (map (\<lambda>a. - int (length a)) (take 10 ys))"
    using sorted_ys by (metis sorted_wrt_take take_map)
  then have 3: "sorted_wrt (\<lambda>a b. length b \<le> length a) (take 10 ys)"
    by (simp add: sorted_map sorted_wrt_iff_nth_less)
  have 4: "length (take 10 ys) \<le> 10" by simp
  have 5: "length (take 10 ys) = 10 \<and> (\<forall>kept \<in> set (take 10 ys). length item \<le> length kept)"
    if "item \<in> set items" "10 < length (trim item)" "item \<notin> set (take 10 ys)" for item
  proof -
    have "item \<in> set ys" using that set_ys by simp
    then have "item \<in> set (take 10 ys) \<union> set (drop 10 ys)"
      by (metis append_take_drop_id set_append)
    with that(3) have d: "item \<in> set (drop 10 ys)" by simp
    then have "10 < length ys" by (metis drop_all empty_iff list.set(1) not_le)
    then have "length (take 10 ys) = 10" by simp
    moreover have "length item \<le> length kept" if "kept \<in> set (take 10 ys)" for kept
      using take_sorted_bound [OF sorted_ys that d] by simp
    ultimately show ?thesis by simp
  qed
  show ?thesis unfolding Let_def r using 1 2 3 4 5 by blast
qed

lemma firstOccurrences_single: "firstOccurrences [x] = [x]"
  by (simp add: firstOccurrences_def indexOf_def enumerate_eq_zip)

lemma trim_examples:
  "trim ''abcdefghijk'' = ''abcdefghijk''" "trim ''short'' = ''short''"
  "trim ''a long enough item'' = ''a long enough item''"
  "trim ''abcdefghij'' = ''abcdefghij''"
  by (simp_all add: trim_def isSpace_def)

lemma firstOccurrences_example:
  "firstOccurrences [''abcdefghijk'', ''short'', ''a long enough item'', ''abcdefghijk''] =
   [''abcdefghijk'', ''short'', ''a long enough item'']"
  by (simp add: firstOccurrences_def indexOf_def enumerate_eq_zip)

theorem deduplicateAndPrioritize_ranked_witness:
  "deduplicateAndPrioritize [''abcdefghijk'', ''short'', ''a long enough item'', ''abcdefghijk''] =
   [''a long enough item'', ''abcdefghijk'']"
  using deduplicateAndPrioritize_ranked
    [of "[''abcdefghijk'', ''short'', ''a long enough item'', ''abcdefghijk'']"]
  by (simp add: deduplicateAndPrioritize_def firstOccurrences_example trim_examples)

text \<open>
  Claim C8 as stated fails: an item of exactly ten characters is not below the threshold
  of 10, and the claim keeps it, but the code tests \<open>item.trim().length > 10\<close> and removes it.
\<close>

theorem deduplicateAndPrioritize_threshold_counterexample:
  "length ''abcdefghij'' = 10 \<and> deduplicateAndPrioritize [''abcdefghij''] = []"
  by (simp add: deduplicateAndPrioritize_def firstOccurrences_single trim_examples)

section \<open>Properties of the summarizer\<close>

lemma ensurePunctuation_ends:
  "endsWith (ensurePunctuation s) ''.'' \<or> endsWith (ensurePunctuation s) ''!'' \<or>
   endsWith (ensurePunctuation s) ''?''"
  by (simp add: ensurePunctuation_def endsWith_def)

lemma ensurePunctuation_last:
  "ensurePunctuation s = (if s \<noteq> [] \<and> last s \<in> set ''.!?'' then s else s @ ''.'')"
proof (cases "s = []")
  case True
  then show ?thesis by (simp add: ensurePunctuation_def endsWith_def)
next
  case False
  then have "drop (length s - 1) s = [last s]"
    by (metis append_butlast_last_id append_eq_conv_conj length_butlast)
  moreover from False have "Suc 0 \<le> length s" by (cases s) simp_all
  ultimately show ?thesis using False by (auto simp: ensurePunctuation_def endsWith_def)
qed

lemma capitalize_Cons: "capitalize E (c # cs) = toUpperCase E [c] @ cs"
  by (simp add: capitalize_def charAt0_def slice1_def)

lemma capitalize_Nil: "capitalize E [] = []"
  by (simp add: capitalize_def charAt0_def slice1_def)

lemma trim_dropWhile: "trim (dropWhile isSpace r) = trim r"
  by (simp add: trim_def)

lemma asciiLowerChar_colon [simp]: "(asciiLowerChar c = CHR '':'') = (c = CHR '':'')"
proof -
  define U where "U = ''ABCDEFGHIJKLMNOPQRSTUVWXYZ''"
  define L where "L = ''abcdefghijklmnopqrstuvwxyz''"
  have low: "asciiLowerChar c = (case map_of (zip U L) c of None \<Rightarrow> c | Some l \<Rightarrow> l)"
    unfolding asciiLowerChar_def L_def U_def ..
  have notL: "CHR '':'' \<notin> set L" and notU: "CHR '':'' \<notin> set U"
    unfolding L_def U_def by simp_all
  show ?thesis
  proof (cases "map_of (zip U L) c")
    case None
    then show ?thesis by (simp add: low)
  next
    case (Some l)
    then have "(c, l) \<in> set (zip U L)" by (rule map_of_SomeD)
    then have "c \<in> set U" "l \<in> set L" by (metis set_zip_leftD, metis set_zip_rightD)
    with notL notU Some show ?thesis by (auto simp: low)
  qed
qed

lemma asciiLowerCase_append [simp]:
  "asciiLowerCase (a @ b) = asciiLowerCase a @ asciiLowerCase b"
  by (simp add: asciiLowerCase_def)

lemma asciiLowerCase_length [simp]: "length (asciiLowerCase a) = length a"
  by (simp add: asciiLowerCase_def)

lemma asciiLowerChar_of_colon [simp]: "asciiLowerChar (CHR '':'') = CHR '':''"
  using asciiLowerChar_colon [of "CHR '':''"] by simp

lemma asciiLowerCase_Cons [simp]:
  "asciiLowerCase (c # cs) = asciiLowerChar c # asciiLowerCase cs"
  by (simp add: asciiLowerCase_def)

lemma asciiLowerCase_Nil [simp]: "asciiLowerCase [] = []"
  by (simp add: asciiLowerCase_def)

lemma take_mark_shorter:
  assumes "c \<notin> set b" "take (length a + 1) s = a @ [c]" "take (length b + 1) s = b @ [c]"
  shows "\<not> length a < length b"
proof
  assume less: "length a < length b"
  then have "take (length a + 1) (take (length b + 1) s) = take (length a + 1) s"
    by (simp add: min_def)
  with assms(2,3) have "take (length a + 1) (b @ [c]) = a @ [c]" by simp
  with less have "take (length a + 1) b = a @ [c]" by simp
  then have "c \<in> set (take (length a + 1) b)" by simp
  then have "c \<in> set b" by (rule in_set_takeD)
  with assms(1) show False by simp
qed

lemma take_mark_unique:
  assumes "c \<notin> set a" "c \<notin> set b" "take (length a + 1) s = a @ [c]"
    "take (length b + 1) s = b @ [c]"
  shows "length a = length b"
  using take_mark_shorter [OF assms(2) assms(3) assms(4)]
    take_mark_shorter [OF assms(1) assms(4) assms(3)]
  by linarith

text \<open>The first expression removes a technical prefix that stands at the very start.\<close>

lemma stripPrefixCI_strips:
  assumes nocolon: "\<forall>w \<in> set ws. CHR '':'' \<notin> set w" and mem: "asciiLowerCase p \<in> set ws"
  shows "stripPrefixCI ws (p @ '':'' @ r) = dropWhile isSpace r"
proof -
  let ?q = "asciiLowerCase p"
  let ?s = "p @ '':'' @ r"
  let ?P = "\<lambda>w. startsWith (asciiLowerCase ?s) (w @ '':'')"
  have "?P ?q" by (simp add: startsWith_def)
  with mem have "find ?P ws \<noteq> None" by (auto simp: find_None_iff)
  then obtain w where found: "find ?P ws = Some w" by blast
  then have wmem: "w \<in> set ws" and wP: "?P w"
    by (auto simp: find_Some_iff)
  have "length w = length ?q"
  proof (rule take_mark_unique [of "CHR '':''" w ?q "asciiLowerCase ?s"])
    show "CHR '':'' \<notin> set w" using nocolon wmem by blast
    show "CHR '':'' \<notin> set ?q" using nocolon mem by blast
    show "take (length w + 1) (asciiLowerCase ?s) = w @ '':''"
      using wP by (simp add: startsWith_def)
    show "take (length ?q + 1) (asciiLowerCase ?s) = ?q @ '':''" by simp
  qed
  then have "drop (length w + 1) ?s = r" by simp
  with found show ?thesis by (simp add: stripPrefixCI_def)
qed

text \<open>It removes nothing else.\<close>

lemma stripPrefixCI_keeps:
  assumes none: "\<forall>p r. x = p @ '':'' @ r \<longrightarrow> asciiLowerCase p \<notin> set ws"
  shows "stripPrefixCI ws x = x"
proof -
  let ?P = "\<lambda>w. startsWith (asciiLowerCase x) (w @ '':'')"
  have "\<not> ?P w" if wmem: "w \<in> set ws" for w
  proof
    assume "?P w"
    then have tk: "take (length w + 1) (asciiLowerCase x) = w @ '':''"
      by (simp add: startsWith_def)
    then have "length (take (length w + 1) (asciiLowerCase x)) = length w + 1" by simp
    then have len: "length w < length x" by simp
    define p where "p = take (length w) x"
    define r where "r = drop (length w + 1) x"
    have split: "x = p @ [x ! length w] @ r"
      unfolding p_def r_def using len by (simp add: id_take_nth_drop)
    have "take (length w) (take (length w + 1) (asciiLowerCase x)) = take (length w) (w @ '':'')"
      using tk by simp
    then have pw: "asciiLowerCase p = w"
      by (simp add: p_def asciiLowerCase_def take_map min_def)
    have "take (length w + 1) (asciiLowerCase x) ! length w = (w @ '':'') ! length w"
      using tk by simp
    then have "asciiLowerChar (x ! length w) = CHR '':''"
      using len by (simp add: asciiLowerCase_def)
    then have "x ! length w = CHR '':''" by simp
    with split have "x = p @ '':'' @ r" by simp
    with none pw wmem show False by blast
  qed
  then have "find ?P ws = None" by (simp add: find_None_iff)
  then show ?thesis by (simp add: stripPrefixCI_def)
qed

text \<open>The second expression removes a pull request number that stands at the very start.\<close>

lemma stripPRPrefix_strips:
  assumes "ds \<noteq> []" "list_all isDigit ds"
  shows "stripPRPrefix (''PR #'' @ ds @ '':'' @ r) = dropWhile isSpace r"
proof -
  have colon: "\<not> isDigit (CHR '':'')" by (simp add: isDigit_def)
  have all: "\<And>d. d \<in> set ds \<Longrightarrow> isDigit d"
    using assms(2) by (simp add: list_all_iff)
  have tw: "takeWhile isDigit (ds @ CHR '':'' # r) = ds"
    using all colon by (simp add: takeWhile_append2)
  have dw: "dropWhile isDigit (ds @ CHR '':'' # r) = CHR '':'' # r"
    using all colon by (simp add: dropWhile_append2)
  show ?thesis
    using assms(1) by (simp add: stripPRPrefix_def startsWith_def tw dw Let_def)
qed

lemma stripPRPrefix_keeps:
  assumes none: "\<forall>ds r. x = ''PR #'' @ ds @ '':'' @ r \<longrightarrow> ds = [] \<or> \<not> list_all isDigit ds"
  shows "stripPRPrefix x = x"
proof (rule ccontr)
  assume changed: "stripPRPrefix x \<noteq> x"
  define ds where "ds = takeWhile isDigit (drop 4 x)"
  define rest where "rest = dropWhile isDigit (drop 4 x)"
  from changed have start: "startsWith x ''PR #''" and ne: "ds \<noteq> []"
    and colon: "startsWith rest '':''"
    by (auto simp: stripPRPrefix_def Let_def ds_def rest_def split: if_splits)
  from start have "x = ''PR #'' @ drop 4 x"
    by (metis append_take_drop_id length_Cons list.size(3) startsWith_def numeral_eq_Suc
        One_nat_def pred_numeral_simps(2) semiring_norm(26) semiring_norm(27) add.right_neutral
        add_Suc_right numeral_2_eq_2 numeral_3_eq_3)
  moreover have "drop 4 x = ds @ rest"
    by (simp add: ds_def rest_def)
  moreover from colon have "rest = '':'' @ drop 1 rest"
    by (metis append_take_drop_id startsWith_def length_Cons list.size(3) One_nat_def)
  ultimately have "x = ''PR #'' @ ds @ '':'' @ drop 1 rest" by metis
  moreover have "list_all isDigit ds"
    by (simp add: ds_def list_all_iff) (metis set_takeWhileD)
  ultimately show False using none ne by blast
qed


lemma technicalPrefixes_no_colon: "\<forall>w \<in> set technicalPrefixes. CHR '':'' \<notin> set w"
  by (simp add: technicalPrefixes_def)

lemma stripPrefixCI_pull_request:
  "stripPrefixCI technicalPrefixes (''PR #'' @ rest) = ''PR #'' @ rest"
  by (simp add: stripPrefixCI_def technicalPrefixes_def startsWith_def asciiLowerChar_def)

text \<open>
  Claim C6, as the code has it. For a group of one activity \<open>x\<close>, \<open>summarizeActivityGroup\<close>
  returns the cleaned \<open>x\<close> and leaves the world as it was: no model call is made, and the
  answers of the model play no part. For the empty group it returns \<open>null\<close>. The cleaning is
  four steps, each on the result of the one before.

  \<^item> A technical prefix is removed when it stands at the very start: one of the nine words, in
    either case of its letters, and a colon, together with the white space after the colon.
    A text that does not start so is left as it is.
  \<^item> A pull request number is removed when it stands at the very start of what is left:
    \<open>PR #\<close>, one digit or more, and a colon, together with the white space after the colon.
    A text that does not start so is left as it is.
  \<^item> The text is trimmed, and its first code unit is replaced by the upper case conversion of
    that unit, as the engine defines it.
  \<^item> A full stop is added unless the text ends with a full stop, an exclamation mark or a
    question mark.

  So \<open>p: rest\<close> with a technical prefix \<open>p\<close> gives the trimmed \<open>rest\<close>, capitalized and
  punctuated, when \<open>rest\<close> has no pull request number at its start, and so does
  \<open>PR #N: rest\<close>, whatever \<open>rest\<close> starts with.
\<close>

theorem summarizeActivityGroup_singleton:
  "summarizeActivityGroup E [] cat w = (Inr None, w) \<and>
   summarizeActivityGroup E [x] cat w = (Inr (Some (cleanActivityDescription E x)), w) \<and>
   summarizeActivityGroup (E\<lparr>generateContent := answers\<rparr>) [x] cat w =
     summarizeActivityGroup E [x] cat w \<and>
   cleanActivityDescription E x =
     ensurePunctuation
       (capitalize E (trim (stripPRPrefix (stripPrefixCI technicalPrefixes x)))) \<and>
   (asciiLowerCase p \<in> set technicalPrefixes \<longrightarrow>
      stripPrefixCI technicalPrefixes (p @ '':'' @ r) = dropWhile isSpace r) \<and>
   ((\<forall>p' r'. y = p' @ '':'' @ r' \<longrightarrow> asciiLowerCase p' \<notin> set technicalPrefixes) \<longrightarrow>
      stripPrefixCI technicalPrefixes y = y) \<and>
   (ds \<noteq> [] \<and> list_all isDigit ds \<longrightarrow>
      stripPRPrefix (''PR #'' @ ds @ '':'' @ r) = dropWhile isSpace r) \<and>
   ((\<forall>ds' r'. z = ''PR #'' @ ds' @ '':'' @ r' \<longrightarrow> ds' = [] \<or> \<not> list_all isDigit ds') \<longrightarrow>
      stripPRPrefix z = z) \<and>
   capitalize E [] = [] \<and>
   capitalize E (c # cs) = toUpperCase E [c] @ cs \<and>
   ensurePunctuation s = (if s \<noteq> [] \<and> last s \<in> set ''.!?'' then s else s @ ''.'') \<and>
   (asciiLowerCase p \<in> set technicalPrefixes \<and>
    (\<forall>ds' r'. dropWhile isSpace r = ''PR #'' @ ds' @ '':'' @ r' \<longrightarrow>
       ds' = [] \<or> \<not> list_all isDigit ds') \<longrightarrow>
      cleanActivityDescription E (p @ '':'' @ r) = ensurePunctuation (capitalize E (trim r))) \<and>
   (ds \<noteq> [] \<and> list_all isDigit ds \<longrightarrow>
      cleanActivityDescription E (''PR #'' @ ds @ '':'' @ r) =
        ensurePunctuation (capitalize E (trim r)))"
proof -
  have group:
    "summarizeActivityGroup E [] cat w = (Inr None, w)"
    "summarizeActivityGroup E [x] cat w = (Inr (Some (cleanActivityDescription E x)), w)"
    "summarizeActivityGroup (E\<lparr>generateContent := answers\<rparr>) [x] cat w =
       summarizeActivityGroup E [x] cat w"
    by (simp_all add: summarizeActivityGroup_def ret_def cleanActivityDescription_def
        capitalize_def)
  have steps:
    "cleanActivityDescription E x =
       ensurePunctuation
         (capitalize E (trim (stripPRPrefix (stripPrefixCI technicalPrefixes x))))"
    by (simp add: cleanActivityDescription_def)
  have first: "stripPrefixCI technicalPrefixes (p @ '':'' @ r) = dropWhile isSpace r"
    if "asciiLowerCase p \<in> set technicalPrefixes"
    using technicalPrefixes_no_colon that by (rule stripPrefixCI_strips)
  have first_keeps: "stripPrefixCI technicalPrefixes y = y"
    if "\<forall>p' r'. y = p' @ '':'' @ r' \<longrightarrow> asciiLowerCase p' \<notin> set technicalPrefixes"
    using that by (rule stripPrefixCI_keeps)
  have second: "stripPRPrefix (''PR #'' @ ds @ '':'' @ r) = dropWhile isSpace r"
    if "ds \<noteq> [] \<and> list_all isDigit ds"
    using that stripPRPrefix_strips [of ds r] by blast
  have second_keeps: "stripPRPrefix z = z"
    if "\<forall>ds' r'. z = ''PR #'' @ ds' @ '':'' @ r' \<longrightarrow> ds' = [] \<or> \<not> list_all isDigit ds'"
    using that by (rule stripPRPrefix_keeps)
  have whole_first:
    "cleanActivityDescription E (p @ '':'' @ r) = ensurePunctuation (capitalize E (trim r))"
    if "asciiLowerCase p \<in> set technicalPrefixes \<and>
        (\<forall>ds' r'. dropWhile isSpace r = ''PR #'' @ ds' @ '':'' @ r' \<longrightarrow>
           ds' = [] \<or> \<not> list_all isDigit ds')"
  proof -
    have "stripPrefixCI technicalPrefixes (p @ '':'' @ r) = dropWhile isSpace r"
      using technicalPrefixes_no_colon that by (blast intro: stripPrefixCI_strips)
    moreover have "stripPRPrefix (dropWhile isSpace r) = dropWhile isSpace r"
      using that by (blast intro: stripPRPrefix_keeps)
    ultimately show ?thesis
      by (simp only: cleanActivityDescription_def trim_dropWhile)
  qed
  have whole_second:
    "cleanActivityDescription E (''PR #'' @ ds @ '':'' @ r) =
       ensurePunctuation (capitalize E (trim r))"
    if "ds \<noteq> [] \<and> list_all isDigit ds"
  proof -
    have "stripPrefixCI technicalPrefixes (''PR #'' @ ds @ '':'' @ r) = ''PR #'' @ ds @ '':'' @ r"
      by (rule stripPrefixCI_pull_request)
    moreover have "stripPRPrefix (''PR #'' @ ds @ '':'' @ r) = dropWhile isSpace r"
      using that stripPRPrefix_strips [of ds r] by blast
    ultimately show ?thesis
      by (simp only: cleanActivityDescription_def trim_dropWhile)
  qed
  from group steps first first_keeps second second_keeps whole_first whole_second
    capitalize_Nil [of E] capitalize_Cons [of E c cs] ensurePunctuation_last [of s]
  show ?thesis by blast
qed

lemma clean_examples:
  "cleanActivityDescription (sampleEngine (\<lambda>k. Inl (Error ''unavailable'')) (\<lambda>s. Inl SyntaxError) (\<lambda>k. 0))
     ''feat: add CSV export'' = ''Add CSV export.''"
  "cleanActivityDescription (sampleEngine (\<lambda>k. Inr ''Shipped things'') (\<lambda>s. Inl SyntaxError) (\<lambda>k. 0))
     ''PR #12: fix login bug!'' = ''Fix login bug!''"
  "asciiLowerCase ''feat'' \<in> set technicalPrefixes"
  "list_all isDigit ''12''"
  "ensurePunctuation (capitalize (sampleEngine (\<lambda>k. Inl (Error ''unavailable'')) (\<lambda>s. Inl SyntaxError) (\<lambda>k. 0)) (trim '' add CSV export'')) = ''Add CSV export.''"
  "ensurePunctuation (capitalize (sampleEngine (\<lambda>k. Inr ''Shipped things'') (\<lambda>s. Inl SyntaxError) (\<lambda>k. 0)) (trim '' fix login bug!'')) = ''Fix login bug!''"
  by code_simp+

theorem summarizeActivityGroup_singleton_witness:
  "summarizeActivityGroup (sampleEngine (\<lambda>k. Inl (Error ''unavailable'')) (\<lambda>s. Inl SyntaxError) (\<lambda>k. 0)) [''feat: add CSV export''] ''feature''
     \<lparr>calls = 0, ticks = 0, geminiRateLimiter = new_RateLimiter (Num 10) (Num 1)\<rparr> =
   (Inr (Some ''Add CSV export.''),
    \<lparr>calls = 0, ticks = 0, geminiRateLimiter = new_RateLimiter (Num 10) (Num 1)\<rparr>) \<and>
   summarizeActivityGroup (sampleEngine (\<lambda>k. Inr ''Shipped things'') (\<lambda>s. Inl SyntaxError) (\<lambda>k. 0)) [''PR #12: fix login bug!''] ''fix''
     \<lparr>calls = 0, ticks = 0, geminiRateLimiter = new_RateLimiter (Num 10) (Num 1)\<rparr> =
   (Inr (Some ''Fix login bug!''),
    \<lparr>calls = 0, ticks = 0, geminiRateLimiter = new_RateLimiter (Num 10) (Num 1)\<rparr>) \<and>
   stripPrefixCI technicalPrefixes (''feat'' @ '':'' @ '' add CSV export'') = ''add CSV export'' \<and>
   stripPrefixCI technicalPrefixes ''add CSV export'' = ''add CSV export'' \<and>
   stripPRPrefix (''PR #'' @ ''12'' @ '':'' @ '' fix login bug!'') = ''fix login bug!'' \<and>
   stripPRPrefix ''add CSV export'' = ''add CSV export'' \<and>
   cleanActivityDescription (sampleEngine (\<lambda>k. Inl (Error ''unavailable'')) (\<lambda>s. Inl SyntaxError) (\<lambda>k. 0)) (''feat'' @ '':'' @ '' add CSV export'') = ''Add CSV export.'' \<and>
   cleanActivityDescription (sampleEngine (\<lambda>k. Inr ''Shipped things'') (\<lambda>s. Inl SyntaxError) (\<lambda>k. 0)) (''PR #'' @ ''12'' @ '':'' @ '' fix login bug!'') = ''Fix login bug!''"
proof -
  have no_colon: "CHR '':'' \<notin> set ''add CSV export''" by simp
  have plain: "\<forall>p' r'. ''add CSV export'' = p' @ '':'' @ r' \<longrightarrow>
      asciiLowerCase p' \<notin> set technicalPrefixes"
  proof (intro allI impI)
    fix p' r' :: string
    assume "''add CSV export'' = p' @ '':'' @ r'"
    then have "CHR '':'' \<in> set ''add CSV export''" by (metis in_set_conv_decomp append_Cons append_Nil)
    with no_colon show "asciiLowerCase p' \<notin> set technicalPrefixes" by blast
  qed
  have no_number: "\<forall>ds' r'. ''add CSV export'' = ''PR #'' @ ds' @ '':'' @ r' \<longrightarrow>
      ds' = [] \<or> \<not> list_all isDigit ds'"
    by simp
  have rest: "dropWhile isSpace '' add CSV export'' = ''add CSV export''"
    "dropWhile isSpace '' fix login bug!'' = ''fix login bug!''"
    by (simp_all add: isSpace_def)
  have no_number_rest: "\<forall>ds' r'. dropWhile isSpace '' add CSV export'' = ''PR #'' @ ds' @ '':'' @ r' \<longrightarrow>
      ds' = [] \<or> \<not> list_all isDigit ds'"
    by (simp add: rest)
  note inst1 = summarizeActivityGroup_singleton
    [of "sampleEngine (\<lambda>k. Inl (Error ''unavailable'')) (\<lambda>s. Inl SyntaxError) (\<lambda>k. 0)" "''feature''" "\<lparr>calls = 0, ticks = 0, geminiRateLimiter = new_RateLimiter (Num 10) (Num 1)\<rparr>" "''feat: add CSV export''" "\<lambda>k. Inl (Error ''unavailable'')"
        "''feat''" "'' add CSV export''" "''add CSV export''" "''12''" "''add CSV export''"]
  note inst2 = summarizeActivityGroup_singleton
    [of "sampleEngine (\<lambda>k. Inr ''Shipped things'') (\<lambda>s. Inl SyntaxError) (\<lambda>k. 0)" "''fix''" "\<lparr>calls = 0, ticks = 0, geminiRateLimiter = new_RateLimiter (Num 10) (Num 1)\<rparr>" "''PR #12: fix login bug!''" "\<lambda>k. Inr ''Shipped things''"
        "''feat''" "'' fix login bug!''" "''add CSV export''" "''12''" "''add CSV export''"]
  from inst1 inst2 plain no_number no_number_rest clean_examples rest
  show ?thesis by (simp only: simp_thms list.simps not_Cons_self2) 
qed

text \<open>
  Claim C6 as stated fails: the cleaned text may keep a technical prefix. The two
  expressions are tried once each, in a fixed order, and only at the very start of the
  text. In \<open>PR #12: feat: x\<close> the technical prefix comes into first place only when the pull
  request number has gone, after its turn, and stays: the result is \<open>Feat: x.\<close>. In
  \<open> PR #3: lead\<close> the white space in front keeps both expressions from matching, and it is
  trimmed after them: the result is \<open>PR #3: lead.\<close>.
\<close>

theorem summarizeActivityGroup_prefix_counterexample:
  "summarizeActivityGroup (sampleEngine (\<lambda>k. Inl (Error ''unavailable'')) (\<lambda>s. Inl SyntaxError) (\<lambda>k. 0)) [''PR #12: feat: x''] ''feature''
     \<lparr>calls = 0, ticks = 0, geminiRateLimiter = new_RateLimiter (Num 10) (Num 1)\<rparr> =
   (Inr (Some ''Feat: x.''),
    \<lparr>calls = 0, ticks = 0, geminiRateLimiter = new_RateLimiter (Num 10) (Num 1)\<rparr>) \<and>
   summarizeActivityGroup (sampleEngine (\<lambda>k. Inl (Error ''unavailable'')) (\<lambda>s. Inl SyntaxError) (\<lambda>k. 0)) ['' PR #3: lead''] ''feature''
     \<lparr>calls = 0, ticks = 0, geminiRateLimiter = new_RateLimiter (Num 10) (Num 1)\<rparr> =
   (Inr (Some ''PR #3: lead.''),
    \<lparr>calls = 0, ticks = 0, geminiRateLimiter = new_RateLimiter (Num 10) (Num 1)\<rparr>)"
  by code_simp

text \<open>
  Claim C10. For the empty activity string both cleaning operations return a single full
  stop: nothing is stripped, the capitalization leaves the empty string empty, and the
  punctuation step adds the full stop.
\<close>

theorem empty_description_is_period:
  "createBusinessDescription E '''' cat = ''.'' \<and> cleanActivityDescription E '''' = ''.'' \<and>
   capitalize E '''' = '''' \<and> ensurePunctuation '''' = ''.''"
proof -
  have first: "stripPrefixCI ws '''' = ''''" for ws
    by (rule stripPrefixCI_keeps) simp
  have second: "stripPRPrefix '''' = ''''"
    by (simp add: stripPRPrefix_def startsWith_def)
  have trimmed: "trim '''' = ''''"
    by (simp add: trim_def)
  have full_stop: "ensurePunctuation '''' = ''.''"
    by (simp add: ensurePunctuation_def endsWith_def)
  show ?thesis
    by (simp add: createBusinessDescription_def cleanActivityDescription_def first second
        trimmed capitalize_Nil full_stop)
qed
section \<open>Properties of the orchestrator\<close>

lemma returns_yields: "returns m = yields m (\<lambda>x. True)"
  by (simp add: returns_def yields_def)

lemma yields_returns: "yields m P \<Longrightarrow> returns m"
  unfolding returns_def yields_def by blast

lemma yields_ret: "P x \<Longrightarrow> yields (ret x) P"
  by (simp add: yields_def ret_def)

lemma returns_ret: "returns (ret x)"
  by (simp add: returns_def ret_def)

lemma yields_bind:
  assumes "yields m P" and "\<And>x. P x \<Longrightarrow> yields (f x) Q"
  shows "yields (bind m f) Q"
  unfolding yields_def
proof
  fix w
  from assms(1) obtain x w1 where 1: "m w = (Inr x, w1)" "P x"
    unfolding yields_def by blast
  from assms(2) [OF 1(2)] obtain y w2 where 2: "f x w1 = (Inr y, w2)" "Q y"
    unfolding yields_def by blast
  show "\<exists>y w'. bind m f w = (Inr y, w') \<and> Q y"
    using 1 2 by (simp add: bind_def)
qed

lemma returns_bind:
  assumes "returns m" and "\<And>x. returns (f x)"
  shows "returns (bind m f)"
  using assms unfolding returns_yields by (rule yields_bind)

lemma returns_try_body: "returns m \<Longrightarrow> returns (try_catch m h)"
  unfolding returns_def try_catch_def
proof
  fix w
  assume "\<forall>w. \<exists>x w'. m w = (Inr x, w')"
  then obtain x w' where "m w = (Inr x, w')" by blast
  then show "\<exists>x w'. (case m w of (Inl e, w') \<Rightarrow> h e w' | (Inr x, w') \<Rightarrow> (Inr x, w')) = (Inr x, w')"
    by simp
qed

lemma returns_try_handler:
  assumes "\<And>e. returns (h e)"
  shows "returns (try_catch m h)"
  unfolding returns_def
proof
  fix w
  obtain r w1 where m: "m w = (r, w1)" by (cases "m w")
  show "\<exists>x w'. try_catch m h w = (Inr x, w')"
  proof (cases r)
    case (Inl e)
    from assms [of e] obtain x w' where "h e w1 = (Inr x, w')"
      unfolding returns_def by blast
    with m Inl show ?thesis by (simp add: try_catch_def)
  next
    case (Inr x)
    with m show ?thesis by (simp add: try_catch_def)
  qed
qed

lemma yields_try_handler:
  assumes "\<And>e. yields (h e) Q" and "\<And>w x w'. m w = (Inr x, w') \<Longrightarrow> Q x"
  shows "yields (try_catch m h) Q"
  unfolding yields_def
proof
  fix w
  obtain r w1 where m: "m w = (r, w1)" by (cases "m w")
  show "\<exists>x w'. try_catch m h w = (Inr x, w') \<and> Q x"
  proof (cases r)
    case (Inl e)
    from assms(1) [of e] obtain x w' where "h e w1 = (Inr x, w')" "Q x"
      unfolding yields_def by blast
    with m Inl show ?thesis by (simp add: try_catch_def)
  next
    case (Inr x)
    with m assms(2) [of w x w1] show ?thesis by (simp add: try_catch_def)
  qed
qed

lemma returns_now: "returns (now E)"
  by (simp add: returns_def now_def)

lemma returns_lift_Inr: "returns (lift (Inr x))"
  by (simp add: returns_def lift_def)

lemma returns_if: "returns a \<Longrightarrow> returns b \<Longrightarrow> returns (if c then a else b)"
  by simp

lemma classifyActivity_yields:
  "yields (classifyActivity E activity) (\<lambda>c. c \<in> set validCategories)"
  unfolding classifyActivity_def
proof (rule yields_try_handler)
  show "yields (ret (fallbackClassification E activity)) (\<lambda>c. c \<in> set validCategories)" for e :: error
    by (rule yields_ret) (rule fallbackClassification_valid)
next
  fix w x w'
  assume "bind (model_text E)
        (\<lambda>text. let classification = toLowerCase E (trim text)
                in if classification \<in> set validCategories then ret classification
                   else ret (fallbackClassification E activity)) w = (Inr x, w')"
  then show "x \<in> set validCategories"
    using fallbackClassification_valid [of E activity]
    by (auto simp: bind_def model_text_def ret_def Let_def split: sum.splits if_splits)
qed

lemma classifyActivities_loop_yields:
  "\<forall>a \<in> set acc. category a \<in> set validCategories \<Longrightarrow>
   yields (classifyActivities_loop E src activities acc)
     (\<lambda>cs. \<forall>a \<in> set cs. category a \<in> set validCategories)"
proof (induction activities arbitrary: acc)
  case Nil
  then show ?case by (simp add: yields_ret)
next
  case (Cons activity rest)
  let ?valid = "\<lambda>item :: CategorizedActivity. category item \<in> set validCategories"
  have item: "yields
     (try_catch
        (bind (classifyActivity E activity) (\<lambda>cat.
           ret \<lparr>category = cat, description = createBusinessDescription E activity cat,
                impact = assessImpact E activity cat, source = src, originalText = activity\<rparr>))
        (\<lambda>error.
           ret \<lparr>category = fallbackClassification E activity,
                description = createBusinessDescription E activity ''chore'',
                impact = ''low'', source = src, originalText = activity\<rparr>)) ?valid"
  proof (rule yields_try_handler)
    show "yields (ret \<lparr>category = fallbackClassification E activity,
                description = createBusinessDescription E activity ''chore'',
                impact = ''low'', source = src, originalText = activity\<rparr>) ?valid" for e :: error
      by (rule yields_ret) (simp add: fallbackClassification_valid)
  next
    fix w x w'
    assume a: "bind (classifyActivity E activity) (\<lambda>cat.
           ret \<lparr>category = cat, description = createBusinessDescription E activity cat,
                impact = assessImpact E activity cat, source = src, originalText = activity\<rparr>) w
        = (Inr x, w')"
    from classifyActivity_yields [of E activity] obtain c w1 where
      c: "classifyActivity E activity w = (Inr c, w1)" "c \<in> set validCategories"
      unfolding yields_def by blast
    with a show "?valid x" by (auto simp: bind_def ret_def)
  qed
  show ?case
    unfolding classifyActivities_loop.simps
  proof (rule yields_bind [OF item])
    fix x assume "?valid x"
    with Cons.prems have "\<forall>a \<in> set (acc @ [x]). category a \<in> set validCategories" by simp
    then show "yields (classifyActivities_loop E src rest (acc @ [x]))
        (\<lambda>cs. \<forall>a \<in> set cs. category a \<in> set validCategories)"
      by (rule Cons.IH)
  qed
qed

lemma classifyActivities_yields:
  "yields (classifyActivities E activities src)
     (\<lambda>cs. \<forall>a \<in> set cs. category a \<in> set validCategories)"
  unfolding classifyActivities_def by (rule classifyActivities_loop_yields) simp

lemma returns_classifyActivities: "returns (classifyActivities E activities src)"
  using classifyActivities_yields by (rule yields_returns)

lemma returns_extractWith: "returns (extractWith E fallback content)"
  unfolding extractWith_def
  by (intro returns_if returns_ret returns_try_handler)

lemma returns_createEmptyResult: "returns (createEmptyResult E t)"
  unfolding createEmptyResult_def by (intro returns_bind returns_now returns_ret)

lemma returns_fallbackProcessing: "returns (fallbackProcessing E c t)"
  unfolding fallbackProcessing_def by (intro returns_bind returns_now returns_ret)

lemma returns_processTextContent: "returns (processTextContent E content)"
  unfolding processTextContent_def Let_def
  by (intro returns_if returns_createEmptyResult returns_try_handler returns_fallbackProcessing)

lemma returns_processOptionalContent: "returns (processOptionalContent E content src)"
  unfolding processOptionalContent_def
  by (cases content)
     (simp_all add: returns_ret returns_bind returns_processTextContent returns_classifyActivities)

lemma returns_processAllSources: "returns (processAllSources E input)"
  unfolding processAllSources_def
  by (intro returns_bind returns_if returns_ret returns_classifyActivities
      returns_processOptionalContent)

lemma returns_extractHighlights: "returns (extractHighlights E acts)"
  unfolding extractHighlights_def
  by (intro returns_if returns_ret returns_try_handler)

lemma returns_extractActivitiesFromContent: "returns (extractActivitiesFromContent E c)"
  unfolding extractActivitiesFromContent_def
  by (intro returns_if returns_ret returns_try_handler)

lemma returns_fallbackStructuredSummary: "returns (fallbackStructuredSummary E activities)"
  unfolding fallbackStructuredSummary_def returns_yields
proof (rule yields_bind [OF classifyActivities_yields])
  fix cs :: "CategorizedActivity list"
  assume valid: "\<forall>a \<in> set cs. category a \<in> set validCategories"
  have g: "groupByCategory cs = Inr (appendByCategory cs emptyGrouped)"
    using valid by (rule groupByCategory_eq)
  show "yields
          (bind (lift (groupByCategory cs))
            (\<lambda>grouped.
                let mapped = mapToWeeklySummaryCategories grouped
                in bind (extractHighlights E activities)
                    (\<lambda>highlights.
                        ret \<lparr>Features = Features mapped, Fixes = Fixes mapped,
                               Refactors = Refactors mapped, Highlights = Some highlights,
                               Notes = Some []\<rparr>)))
          (\<lambda>x. True)"
    unfolding g Let_def returns_yields [symmetric]
    by (intro returns_bind returns_lift_Inr returns_extractHighlights returns_ret)
qed

lemma returns_generateStructuredSummary: "returns (generateStructuredSummary E activities)"
  unfolding generateStructuredSummary_def
  by (intro returns_if returns_ret returns_try_handler returns_fallbackStructuredSummary)

lemma returns_createWeeklySummary: "returns (createWeeklySummary E gh n a)"
  unfolding createWeeklySummary_def Let_def
  by (intro returns_bind returns_if returns_ret returns_extractActivitiesFromContent
      returns_generateStructuredSummary)

lemma returns_createComprehensiveSummary: "returns (createComprehensiveSummary E input acts)"
  unfolding createComprehensiveSummary_def Let_def
  by (intro returns_bind returns_createWeeklySummary returns_extractHighlights returns_ret)

lemma returns_analyzeActivity: "returns (analyzeActivity E input)"
  unfolding analyzeActivity_def
  by (intro returns_try_body returns_bind returns_processAllSources
      returns_createComprehensiveSummary returns_now returns_ret)

lemma returns_getUsageStats_io: "returns (getUsageStats_io E)"
  by (simp add: returns_def getUsageStats_io_def bind_def now_def)

lemma returns_waitForAvailability_io: "returns (waitForAvailability_io E)"
  by (simp add: returns_def waitForAvailability_io_def bind_def now_def)

lemma returns_pushBasic: "returns (pushBasic E c t a)"
  unfolding pushBasic_def by (intro returns_if returns_bind returns_now returns_ret)

lemma returns_createBasicFallbackAchievements:
  "returns (createBasicFallbackAchievements E gh ctx)"
  unfolding createBasicFallbackAchievements_def by (intro returns_bind returns_pushBasic)

lemma returns_optimizedSingleCallAnalysis:
  "returns (optimizedSingleCallAnalysis E gh ctx pdfs)"
  unfolding optimizedSingleCallAnalysis_def
  by (intro returns_try_handler returns_createBasicFallbackAchievements)

lemma returns_quickAnalyze: "returns (quickAnalyze E gh ctx pdfs)"
  unfolding quickAnalyze_def
  by (intro returns_try_body returns_bind returns_getUsageStats_io
      returns_optimizedSingleCallAnalysis)

lemma returns_fallbackAnalysis: "returns (fallbackAnalysis E gh ctx)"
  unfolding fallbackAnalysis_def
  by (intro returns_try_handler returns_bind returns_if returns_now returns_ret)

lemma returns_analyzeGitHubActivity: "returns (analyzeGitHubActivity E gh ctx pdfs)"
  unfolding analyzeGitHubActivity_def
  by (intro returns_try_body returns_quickAnalyze)

text \<open>
  Claim C2. Whatever the model answers or fails with, whatever \<open>JSON.parse\<close> makes of the
  answers, \<open>analyzeActivity\<close>, \<open>quickAnalyze\<close> and \<open>analyzeGitHubActivity\<close> return a result: the
  failure of a stage is caught in that stage and replaced by its fallback, so the handlers
  of the two entry points, which raise again, are never reached. The stages themselves
  return as well. The constructor raises the configuration error exactly when the API key
  is missing or empty.
\<close>

theorem orchestrator_absorbs_failures:
  "returns (analyzeActivity E input) \<and>
   returns (quickAnalyze E gh ctx pdfs) \<and>
   returns (analyzeGitHubActivity E gh ctx pdfs) \<and>
   returns (classifyActivities E activities src) \<and>
   returns (processTextContent E content) \<and>
   returns (createWeeklySummary E gh notion ctx) \<and>
   returns (extractHighlights E activities) \<and>
   returns (optimizedSingleCallAnalysis E gh ctx pdfs) \<and>
   new_WeeklyUpdateAIAgent apiKey =
     (if truthy apiKey then Inr () else Inl (Error ''Google AI API key is not configured''))"
  by (simp add: returns_analyzeActivity returns_quickAnalyze returns_analyzeGitHubActivity
      returns_classifyActivities returns_processTextContent returns_createWeeklySummary
      returns_extractHighlights returns_optimizedSingleCallAnalysis new_WeeklyUpdateAIAgent_def)

lemma analyzeActivity_all_calls_fail:
  "analyzeActivity
     (sampleEngine (\<lambda>k. Inl (Error ''unavailable'')) (\<lambda>s. Inl SyntaxError) (\<lambda>k. 1000))
     \<lparr>githubData =
        \<lparr>commits = [\<lparr>commit_message = ''fix: null pointer in parser''\<rparr>,
                    \<lparr>commit_message = ''feat: add CSV export''\<rparr>],
         pullRequests = []\<rparr>,
      notionContent = None, additionalContext = None,
      startDate = ''2024-01-01'', endDate = ''2024-01-07''\<rparr>
     \<lparr>calls = 0, ticks = 0, geminiRateLimiter = new_RateLimiter (Num 10) (Num 1)\<rparr> =
   (Inr \<lparr>weeklySummary =
           \<lparr>Features = [''Add CSV export.''], Fixes = [''Null pointer in parser.''],
            Refactors = [], Highlights = Some [], Notes = Some []\<rparr>,
         categorizedActivities =
           [\<lparr>category = ''fix'', description = ''Null pointer in parser.'',
             impact = ''medium'', source = ''commit'',
             originalText = ''fix: null pointer in parser''\<rparr>,
            \<lparr>category = ''feature'', description = ''Add CSV export.'',
             impact = ''medium'', source = ''commit'',
             originalText = ''feat: add CSV export''\<rparr>],
         totalActivities = 2, analysisTimestamp = 1000, confidenceScore = 31\<rparr>,
    \<lparr>calls = 7, ticks = 1, geminiRateLimiter = new_RateLimiter (Num 10) (Num 1)\<rparr>)"
  by code_simp

theorem orchestrator_absorbs_failures_witness:
  "returns (analyzeActivity
     (sampleEngine (\<lambda>k. Inl (Error ''unavailable'')) (\<lambda>s. Inl SyntaxError) (\<lambda>k. 1000))
     \<lparr>githubData =
        \<lparr>commits = [\<lparr>commit_message = ''fix: null pointer in parser''\<rparr>,
                    \<lparr>commit_message = ''feat: add CSV export''\<rparr>],
         pullRequests = []\<rparr>,
      notionContent = None, additionalContext = None,
      startDate = ''2024-01-01'', endDate = ''2024-01-07''\<rparr>) \<and>
   fst (analyzeActivity
     (sampleEngine (\<lambda>k. Inl (Error ''unavailable'')) (\<lambda>s. Inl SyntaxError) (\<lambda>k. 1000))
     \<lparr>githubData =
        \<lparr>commits = [\<lparr>commit_message = ''fix: null pointer in parser''\<rparr>,
                    \<lparr>commit_message = ''feat: add CSV export''\<rparr>],
         pullRequests = []\<rparr>,
      notionContent = None, additionalContext = None,
      startDate = ''2024-01-01'', endDate = ''2024-01-07''\<rparr>
     \<lparr>calls = 0, ticks = 0, geminiRateLimiter = new_RateLimiter (Num 10) (Num 1)\<rparr>) =
   Inr \<lparr>weeklySummary =
           \<lparr>Features = [''Add CSV export.''], Fixes = [''Null pointer in parser.''],
            Refactors = [], Highlights = Some [], Notes = Some []\<rparr>,
         categorizedActivities =
           [\<lparr>category = ''fix'', description = ''Null pointer in parser.'',
             impact = ''medium'', source = ''commit'',
             originalText = ''fix: null pointer in parser''\<rparr>,
            \<lparr>category = ''feature'', description = ''Add CSV export.'',
             impact = ''medium'', source = ''commit'',
             originalText = ''feat: add CSV export''\<rparr>],
         totalActivities = 2, analysisTimestamp = 1000, confidenceScore = 31\<rparr>"
proof
  show "returns (analyzeActivity
     (sampleEngine (\<lambda>k. Inl (Error ''unavailable'')) (\<lambda>s. Inl SyntaxError) (\<lambda>k. 1000))
     \<lparr>githubData =
        \<lparr>commits = [\<lparr>commit_message = ''fix: null pointer in parser''\<rparr>,
                    \<lparr>commit_message = ''feat: add CSV export''\<rparr>],
         pullRequests = []\<rparr>,
      notionContent = None, additionalContext = None,
      startDate = ''2024-01-01'', endDate = ''2024-01-07''\<rparr>)"
    using orchestrator_absorbs_failures by (rule conjunct1)
next
  show "fst (analyzeActivity
     (sampleEngine (\<lambda>k. Inl (Error ''unavailable'')) (\<lambda>s. Inl SyntaxError) (\<lambda>k. 1000))
     \<lparr>githubData =
        \<lparr>commits = [\<lparr>commit_message = ''fix: null pointer in parser''\<rparr>,
                    \<lparr>commit_message = ''feat: add CSV export''\<rparr>],
         pullRequests = []\<rparr>,
      notionContent = None, additionalContext = None,
      startDate = ''2024-01-01'', endDate = ''2024-01-07''\<rparr>
     \<lparr>calls = 0, ticks = 0, geminiRateLimiter = new_RateLimiter (Num 10) (Num 1)\<rparr>) =
   Inr \<lparr>weeklySummary =
           \<lparr>Features = [''Add CSV export.''], Fixes = [''Null pointer in parser.''],
            Refactors = [], Highlights = Some [], Notes = Some []\<rparr>,
         categorizedActivities =
           [\<lparr>category = ''fix'', description = ''Null pointer in parser.'',
             impact = ''medium'', source = ''commit'',
             originalText = ''fix: null pointer in parser''\<rparr>,
            \<lparr>category = ''feature'', description = ''Add CSV export.'',
             impact = ''medium'', source = ''commit'',
             originalText = ''feat: add CSV export''\<rparr>],
         totalActivities = 2, analysisTimestamp = 1000, confidenceScore = 31\<rparr>"
    unfolding analyzeActivity_all_calls_fail by simp
qed

text \<open>
  Claim C3. When the required parameters are present, the fetched data has no commit and
  no pull request, and the supplementary text is absent or blank, the handler answers with
  exactly one achievement, \<open>no-data-found\<close>, whose text names the start and the end date of
  the request; the world is unchanged, so no model call was made.
\<close>

theorem POST_no_data:
  assumes "truthy (req_accessToken req)" and "truthy (req_repoUrl req)"
    and "req_startDate req = Some start" and "start \<noteq> []"
    and "req_endDate req = Some end'" and "end' \<noteq> []"
    and "fetched = Inr gh" and "commits gh = []" and "pullRequests gh = []"
    and "req_notionContent req = None \<or> trim (orEmpty (req_notionContent req)) = []"
  shows "POST E req fetched pdfFiles w =
     (Inr \<lparr>status = 200,
           body = AchievementsBody
             [\<lparr>ach_id = ''no-data-found'',
               ach_text = JStr
                 (''No code changes, pull requests, or additional notes were found within the specified timeframe ('' @
                  start @ '' to '' @ end' @
                  ''). Consider expanding your date range or checking if there was any repository activity during this period.''),
               ach_selected = True,
               ach_source = ''system''\<rparr>]\<rparr>,
      w)"
  using assms
  by (auto simp: POST_def try_catch_def bind_def lift_def ret_def truthy_def orEmpty_def
      noDataAchievement_def Let_def)

theorem POST_no_data_witness:
  "POST
     (sampleEngine (\<lambda>k. Inr ''[]'') (\<lambda>s. Inr (JArr [])) (\<lambda>k. 1000))
     \<lparr>req_accessToken = Some ''token'', req_repoUrl = Some ''owner/repo'',
      req_startDate = Some ''2024-01-01'', req_endDate = Some ''2024-01-07'',
      req_notionContent = Some ''  ''\<rparr>
     (Inr \<lparr>commits = [], pullRequests = []\<rparr>) [''notes.pdf'']
     \<lparr>calls = 0, ticks = 0, geminiRateLimiter = new_RateLimiter (Num 10) (Num 1)\<rparr> =
   (Inr \<lparr>status = 200,
         body = AchievementsBody
           [\<lparr>ach_id = ''no-data-found'',
             ach_text = JStr
               (''No code changes, pull requests, or additional notes were found within the specified timeframe ('' @
                ''2024-01-01'' @ '' to '' @ ''2024-01-07'' @
                ''). Consider expanding your date range or checking if there was any repository activity during this period.''),
             ach_selected = True,
             ach_source = ''system''\<rparr>]\<rparr>,
    \<lparr>calls = 0, ticks = 0, geminiRateLimiter = new_RateLimiter (Num 10) (Num 1)\<rparr>)"
  by (rule POST_no_data [where gh = "\<lparr>commits = [], pullRequests = []\<rparr>"])
     (simp_all add: truthy_def orEmpty_def trim_def isSpace_def)

end
